theory Spec2Isabelle
  imports Main
begin

section \<open>External collaborators\<close>

text \<open>
  The handlers of the authentication routes talk to three things that are not code of the
  repository: the HTTP client (\<^verbatim>\<open>axios\<close>), the token library
  (\<^verbatim>\<open>jsonwebtoken\<close>) and the hash of \<^verbatim>\<open>crypto\<close>. They are parameters of the model,
  collected in one record; every theorem holds for every choice of them. Time is a natural
  number of seconds, handed to each request as \<open>now\<close> (\<^verbatim>\<open>NOW()\<close>, \<^verbatim>\<open>Date.now()\<close>).
\<close>

record api_data =
  Status :: string
  Details :: "string option"

text \<open>
  What \<^verbatim>\<open>await axios.get(url, {timeout: 10000})\<close> can do: resolve with a response whose
  \<^verbatim>\<open>data\<close> may be absent, or reject with the timeout error (\<^verbatim>\<open>error.code === 'ECONNABORTED'\<close>,
  raised by the client once the 10 seconds have passed), with an HTTP error that carries
  \<^verbatim>\<open>error.response\<close> (status and data), or with any other error (its message).
\<close>

datatype http_outcome =
    Replied "api_data option"
  | TimedOut string
  | HttpError string string
  | OtherError string

record claims =
  userId :: "string option"
  id_claim :: "string option"
  sub :: "string option"
  phone :: "string option"
  name :: "string option"
  restaurant :: "string option"
  addressId :: "int option"
  menuId :: "int option"
  token_type :: "string option"

text \<open>
  \<open>jwt_sign E payload now ttl\<close> is \<^verbatim>\<open>jwt.sign(payload, process.env.JWT_SECRET, {expiresIn})\<close>
  and \<open>jwt_verify E token now\<close> is \<^verbatim>\<open>jwt.verify(token, process.env.JWT_SECRET)\<close>, with
  \<open>None\<close> where the library throws (bad signature, malformed or expired token).
  \<open>sha256_hex E s\<close> is \<^verbatim>\<open>crypto.createHash('sha256').update(s).digest('hex')\<close> on a string
  \<open>s\<close>: 64 hexadecimal characters, which fit the \<^verbatim>\<open>VARCHAR(255)\<close> columns that store them.
\<close>

record env =
  TWOFACTOR_API_KEY :: string
  axios_get :: "string \<Rightarrow> http_outcome"
  sha256_hex :: "string \<Rightarrow> string"
  jwt_sign :: "claims \<Rightarrow> nat \<Rightarrow> nat \<Rightarrow> string"
  jwt_verify :: "string \<Rightarrow> nat \<Rightarrow> claims option"

definition TWOFACTOR_BASE_URL :: string where
  "TWOFACTOR_BASE_URL = ''https://2factor.in/API/V1''"

definition hashToken :: "env \<Rightarrow> string \<Rightarrow> string" where
  "hashToken E token = sha256_hex E token"

text \<open>JavaScript truthiness of a value that is a string, \<^verbatim>\<open>null\<close> or \<^verbatim>\<open>undefined\<close>.\<close>

definition truthy :: "string option \<Rightarrow> bool" where
  "truthy v = (case v of None \<Rightarrow> False | Some s \<Rightarrow> s \<noteq> [])"

text \<open>\<^verbatim>\<open>a || b\<close> on such values.\<close>

definition js_or :: "string option \<Rightarrow> string option \<Rightarrow> string option" where
  "js_or a b = (if truthy a then a else b)"

text \<open>\<^verbatim>\<open>v || 'default'\<close> where the default is a string literal.\<close>

definition str_or :: "string option \<Rightarrow> string \<Rightarrow> string" where
  "str_or v dflt = (case v of None \<Rightarrow> dflt | Some s \<Rightarrow> (if s = [] then dflt else s))"

section \<open>The OTP provider adapter\<close>

text \<open>
  A value of a JSON body, as far as the code below tells values apart: a string; any other
  value (a number, a boolean, \<^verbatim>\<open>null\<close>, an array, an object), which has no \<^verbatim>\<open>replace\<close> method
  and is no input of the hash, given with its truthiness and with the text a template literal
  makes of it; and an object whose conversion to a string throws, because its own
  \<^verbatim>\<open>toString\<close> is not a function (the body \<^verbatim>\<open>{"toString": 1}\<close>).
\<close>

datatype js_value = JString string | JOther bool string | JUnprintable

definition js_truthy :: "js_value \<Rightarrow> bool" where
  "js_truthy v = (case v of JString s \<Rightarrow> s \<noteq> [] | JOther b t \<Rightarrow> b | JUnprintable \<Rightarrow> True)"

text \<open>\<^verbatim>\<open>null\<close>, the default of the \<^verbatim>\<open>otp\<close> parameter of \<^verbatim>\<open>send2FactorOTP\<close>.\<close>

definition js_null :: js_value where
  "js_null = JOther False ''null''"

datatype js_error =
    TypeError string
  | Error string
  | AxiosTimeout string
  | AxiosHttp string string
  | AxiosOther string

text \<open>\<^verbatim>\<open>error.message\<close> (for an HTTP error of the client, its status).\<close>

definition error_text :: "js_error \<Rightarrow> string" where
  "error_text e =
     (case e of
        TypeError m \<Rightarrow> m
      | Error m \<Rightarrow> m
      | AxiosTimeout m \<Rightarrow> m
      | AxiosHttp st d \<Rightarrow> st
      | AxiosOther m \<Rightarrow> m)"

text \<open>The text \<^verbatim>\<open>`${v}`\<close> of a value inside a template literal, or the error it throws.\<close>

definition template_text :: "js_value \<Rightarrow> js_error + string" where
  "template_text v =
     (case v of
        JString s \<Rightarrow> Inr s
      | JOther b t \<Rightarrow> Inr t
      | JUnprintable \<Rightarrow> Inl (TypeError ''Cannot convert object to primitive value''))"

record sms_result =
  success :: bool
  sessionId :: "string option"
  message :: "string option"
  phoneNumber :: "string option"
  error :: "string option"
  details :: "string option"

definition is_digit :: "char \<Rightarrow> bool" where
  "is_digit c = (c \<in> set ''0123456789'')"

text \<open>\<^verbatim>\<open>phoneNumber.replace(/^\+91/, '').replace(/\D/g, '')\<close>\<close>

definition cleanPhoneNumber :: "string \<Rightarrow> string" where
  "cleanPhoneNumber p =
     filter is_digit (if take 3 p = ''+91'' then drop 3 p else p)"

definition sms_ok :: "string option \<Rightarrow> string \<Rightarrow> string \<Rightarrow> sms_result" where
  "sms_ok sid msg p =
     \<lparr>success = True, sessionId = sid, message = Some msg, phoneNumber = Some p,
      error = None, details = None\<rparr>"

definition sms_failed :: "string \<Rightarrow> string \<Rightarrow> sms_result" where
  "sms_failed e d =
     \<lparr>success = False, sessionId = None, message = None, phoneNumber = None,
      error = Some e, details = Some d\<rparr>"

text \<open>\<^verbatim>\<open>response.data?.Details || 'Unknown error'\<close>\<close>

definition details_or :: "api_data option \<Rightarrow> string \<Rightarrow> string" where
  "details_or d dflt = (case d of None \<Rightarrow> dflt | Some a \<Rightarrow> str_or (Details a) dflt)"

definition await_get :: "env \<Rightarrow> string \<Rightarrow> js_error + api_data option" where
  "await_get E url =
     (case axios_get E url of
        Replied d \<Rightarrow> Inr d
      | TimedOut m \<Rightarrow> Inl (AxiosTimeout m)
      | HttpError st d \<Rightarrow> Inl (AxiosHttp st d)
      | OtherError m \<Rightarrow> Inl (AxiosOther m))"

text \<open>The last segment of the request URL: \<^verbatim>\<open>otp ? `${otp}` : 'AUTOGEN'\<close>.\<close>

definition otp_segment :: "js_value \<Rightarrow> js_error + string" where
  "otp_segment otp = (if js_truthy otp then template_text otp else Inr ''AUTOGEN'')"

definition sms_url :: "env \<Rightarrow> string \<Rightarrow> string \<Rightarrow> string" where
  "sms_url E clean segment =
     TWOFACTOR_BASE_URL @ ''/'' @ TWOFACTOR_API_KEY E @ ''/SMS/'' @ clean @ ''/'' @ segment"

text \<open>
  The body of the \<^verbatim>\<open>try\<close> block of \<^verbatim>\<open>send2FactorOTP\<close>: the result or the error thrown,
  and the URLs requested so far.
\<close>

definition send2FactorOTP_try ::
  "env \<Rightarrow> js_value \<Rightarrow> js_value \<Rightarrow> (js_error + sms_result) \<times> string list" where
  "send2FactorOTP_try E phone_value otp =
     (case phone_value of
        JOther b t \<Rightarrow> (Inl (TypeError ''phoneNumber.replace is not a function''), [])
      | JUnprintable \<Rightarrow> (Inl (TypeError ''phoneNumber.replace is not a function''), [])
      | JString p \<Rightarrow>
          (let clean = cleanPhoneNumber p in
           if length clean \<noteq> 10
           then (Inl (Error ''Invalid phone number format. Must be 10 digits.''), [])
           else
             (case otp_segment otp of
                Inl e \<Rightarrow> (Inl e, [])
              | Inr segment \<Rightarrow>
                  (let apiUrl = sms_url E clean segment
                   in case await_get E apiUrl of
                        Inl e \<Rightarrow> (Inl e, [apiUrl])
                      | Inr d \<Rightarrow>
                          (case d of
                             None \<Rightarrow>
                               (Inl (Error (''2Factor API Error: '' @ details_or d ''Unknown error'')),
                                [apiUrl])
                           | Some a \<Rightarrow>
                               if Status a = ''Success''
                               then (Inr (sms_ok (Details a) ''OTP sent successfully via 2Factor'' clean),
                                     [apiUrl])
                               else (Inl (Error (''2Factor API Error: '' @ details_or d ''Unknown error'')),
                                     [apiUrl]))))))"

text \<open>The \<^verbatim>\<open>catch\<close> block: every error becomes a result.\<close>

definition send2FactorOTP_catch :: "js_error \<Rightarrow> sms_result" where
  "send2FactorOTP_catch e =
     (case e of
        AxiosTimeout m \<Rightarrow> sms_failed ''SMS service timeout. Please try again.'' m
      | AxiosHttp st d \<Rightarrow> sms_failed (''SMS service error: '' @ st) d
      | AxiosOther m \<Rightarrow> sms_failed ''Failed to send SMS'' m
      | TypeError m \<Rightarrow> sms_failed ''Failed to send SMS'' m
      | Error m \<Rightarrow> sms_failed ''Failed to send SMS'' m)"

text \<open>
  The whole function: \<open>Inl\<close> is an error that escapes to the caller (the promise rejects),
  \<open>Inr\<close> is the object returned. The second component lists the network calls made. The
  statements before the \<^verbatim>\<open>try\<close> block log the arguments; the first of them formats
  \<^verbatim>\<open>`${phoneNumber}`\<close>, and what it throws is caught by nothing.
\<close>

definition send2FactorOTP ::
  "env \<Rightarrow> js_value \<Rightarrow> js_value \<Rightarrow> (js_error + sms_result) \<times> string list" where
  "send2FactorOTP E phone_value otp =
     (case template_text phone_value of
        Inl e \<Rightarrow> (Inl e, [])
      | Inr logged \<Rightarrow>
          (case send2FactorOTP_try E phone_value otp of
             (Inr r, calls) \<Rightarrow> (Inr r, calls)
           | (Inl e, calls) \<Rightarrow> (Inr (send2FactorOTP_catch e), calls)))"

text \<open>
  \<^verbatim>\<open>verify2FactorOTP\<close>: its first statement, which formats \<^verbatim>\<open>`${otp}`\<close>, is inside the
  \<^verbatim>\<open>try\<close> block already.
\<close>

definition verify2FactorOTP_catch :: "js_error \<Rightarrow> sms_result" where
  "verify2FactorOTP_catch e =
     (case e of
        AxiosTimeout m \<Rightarrow> sms_failed ''Verification service timeout. Please try again.'' m
      | AxiosHttp st d \<Rightarrow> sms_failed (''Verification service error: '' @ st) d
      | AxiosOther m \<Rightarrow> sms_failed ''Failed to verify OTP'' m
      | TypeError m \<Rightarrow> sms_failed ''Failed to verify OTP'' m
      | Error m \<Rightarrow> sms_failed ''Failed to verify OTP'' m)"

definition verify2FactorOTP :: "env \<Rightarrow> string \<Rightarrow> js_value \<Rightarrow> sms_result \<times> string list" where
  "verify2FactorOTP E sid code =
     (case template_text code of
        Inl e \<Rightarrow> (verify2FactorOTP_catch e, [])
      | Inr text \<Rightarrow>
          (let apiUrl = TWOFACTOR_BASE_URL @ ''/'' @ TWOFACTOR_API_KEY E @ ''/SMS/VERIFY/'' @ sid
                          @ ''/'' @ text;
               result =
                 (case await_get E apiUrl of
                    Inl e \<Rightarrow> verify2FactorOTP_catch e
                  | Inr d \<Rightarrow>
                      (case d of
                         None \<Rightarrow> sms_failed ''Invalid OTP'' (details_or d ''OTP verification failed'')
                       | Some a \<Rightarrow>
                           if Status a = ''Success''
                           then \<lparr>success = True, sessionId = None,
                                 message = Some ''OTP verified successfully'', phoneNumber = None,
                                 error = None, details = Details a\<rparr>
                           else sms_failed ''Invalid OTP'' (details_or d ''OTP verification failed'')))
           in (result, [apiUrl])))"

section \<open>The datastore\<close>

text \<open>
  The tables the authentication routes and the cascade deletion read and write, each a list
  of rows in insertion order. Columns that no modelled statement reads are left out. A
  nullable column is an \<open>option\<close>. Timestamps are seconds.
\<close>

record seller =
  seller_id :: string
  owner_name :: string
  restaurant_name :: string
  rest_phone :: "string option"
  phone_verified :: bool
  account_status :: string
  address_id :: "int option"
  menu_id :: "int option"
  last_login :: "nat option"

record address =
  addr_address_id :: int
  addr_rest_id :: "string option"
  address_type :: "string option"

record otp_attempt =
  otp_id :: nat
  phone_number :: string
  otp_hash :: string
  attempts :: nat
  created_at :: nat
  expires_at :: nat
  verified_at :: "nat option"
  ip_address :: string
  is_signup :: bool
  session_id :: "string option"
  sms_provider :: string
  sms_status :: string

record auth_session =
  sess_session_id :: nat
  sess_seller_id :: string
  refresh_token_hash :: string
  device_info :: "string option"
  sess_ip_address :: string
  sess_created_at :: nat
  sess_expires_at :: nat
  is_active :: bool
  last_used :: nat

record auth_log =
  log_seller_id :: "string option"
  log_phone_number :: "string option"
  event_type :: string
  log_ip_address :: string
  user_agent :: string
  log_success :: bool
  error_message :: "string option"
  log_created_at :: nat

text \<open>A row of one of the six tables related to a seller through \<^verbatim>\<open>rest_id\<close>.\<close>

record rest_row =
  row_id :: int
  rest_id :: string

record db =
  sellers :: "seller list"
  addresses :: "address list"
  otp_attempts :: "otp_attempt list"
  auth_sessions :: "auth_session list"
  auth_logs :: "auth_log list"
  collection :: "rest_row list"
  likes :: "rest_row list"
  menu :: "rest_row list"
  order_list :: "rest_row list"
  orders :: "rest_row list"
  rating :: "rest_row list"

text \<open>\<^verbatim>\<open>rows[0]\<close> of a query result, \<^verbatim>\<open>undefined\<close> on an empty result.\<close>

definition first_row :: "'a list \<Rightarrow> 'a option" where
  "first_row rows = (case rows of [] \<Rightarrow> None | r # _ \<Rightarrow> Some r)"

text \<open>The value a \<^verbatim>\<open>SERIAL\<close> or generated key takes: one not in the table yet.\<close>

definition fresh_id :: "nat list \<Rightarrow> nat" where
  "fresh_id ks = Suc (fold max ks 0)"

text \<open>\<^verbatim>\<open>COALESCE(MAX(col), 0) + 1\<close>\<close>

definition coalesce_max_plus_1 :: "int list \<Rightarrow> int" where
  "coalesce_max_plus_1 ks = (case ks of [] \<Rightarrow> 0 | k # r \<Rightarrow> fold max r k) + 1"

section \<open>Requests and responses\<close>

record request =
  ip :: string
  user_agent_header :: "string option"
  authorization :: "string option"

record signup_data =
  ownerName :: "string option"
  restaurantName :: "string option"

record user_view =
  user_id :: string
  user_name :: string
  user_phone :: "string option"
  user_restaurant :: string
  user_addressId :: "int option"
  user_menuId :: "int option"

text \<open>
  The JSON bodies: an error message; the answer of send-otp (message, isSignup, expiresIn,
  smsProvider, smsStatus); of verify-otp (message, isSignup, accessToken, refreshToken,
  expiresIn, user); of refresh (accessToken, expiresIn, user); of logout; of \<^verbatim>\<open>/me\<close>
  (the user projection, account status, last login and the linked address row); and the
  empty body of a 204.
\<close>

datatype body =
    ErrorBody string
  | SendOtpBody string bool nat string string
  | VerifyBody string bool string string nat user_view
  | RefreshBody string nat user_view
  | LogoutBody string
  | MeBody user_view string "nat option" "address option"
  | NoContent

text \<open>
  What the client gets: a status and a body, or nothing, when the handler threw outside its
  \<^verbatim>\<open>try\<close> block and so never answered.
\<close>

datatype response = Resp nat body | Unanswered js_error

text \<open>
  \<^verbatim>\<open>getClientInfo\<close> and \<^verbatim>\<open>logAuthEvent\<close>. The insert of the log row throws when the row
  breaks the table's definition: \<^verbatim>\<open>phone_number VARCHAR(15)\<close>, and
  \<^verbatim>\<open>seller_id REFERENCES sellers(seller_id)\<close>. The function catches that and goes on, so the
  log is then left as it was.
\<close>

definition auth_log_row_rejected :: "string option \<Rightarrow> string option \<Rightarrow> db \<Rightarrow> bool" where
  "auth_log_row_rejected phoneNum sellerId d =
     ((case phoneNum of None \<Rightarrow> False | Some p \<Rightarrow> 15 < length p)
      \<or> (case sellerId of
            None \<Rightarrow> False
          | Some sid \<Rightarrow> filter (\<lambda>s. seller_id s = sid) (sellers d) = []))"

definition logAuthEvent ::
  "string \<Rightarrow> string option \<Rightarrow> string option \<Rightarrow> bool \<Rightarrow> string option \<Rightarrow> request \<Rightarrow> nat \<Rightarrow> db \<Rightarrow> db" where
  "logAuthEvent eventType phoneNum sellerId ok err req now d =
     (if auth_log_row_rejected phoneNum sellerId d then d
      else d\<lparr>auth_logs := auth_logs d @
             [\<lparr>log_seller_id = sellerId, log_phone_number = phoneNum, event_type = eventType,
               log_ip_address = ip req, user_agent = str_or (user_agent_header req) ''Unknown'',
               log_success = ok, error_message = err, log_created_at = now\<rparr>]\<rparr>)"

section \<open>send-otp\<close>

text \<open>\<^verbatim>\<open>SELECT ... FROM sellers WHERE rest_phone = $1\<close>\<close>

definition sellers_by_phone :: "string \<Rightarrow> db \<Rightarrow> seller list" where
  "sellers_by_phone pn d = filter (\<lambda>s. rest_phone s = Some pn) (sellers d)"

text \<open>
  \<^verbatim>\<open>SELECT COUNT(*) FROM otp_attempts WHERE phone_number = $1 AND created_at > NOW() - INTERVAL '1 hour'\<close>;
  the comparison is written with an addition, since subtraction on \<open>nat\<close> truncates.
\<close>

definition recentAttempts :: "string \<Rightarrow> nat \<Rightarrow> db \<Rightarrow> nat" where
  "recentAttempts pn now d =
     length (filter (\<lambda>r. phone_number r = pn \<and> now < created_at r + 3600) (otp_attempts d))"




section \<open>verify-otp\<close>

text \<open>
  \<^verbatim>\<open>ORDER BY created_at DESC LIMIT 1\<close>: a row with the greatest \<^verbatim>\<open>created_at\<close>. Among rows
  created in the same second SQL leaves the choice open; the model takes the one inserted first.
\<close>

fun latest :: "otp_attempt list \<Rightarrow> otp_attempt option" where
  "latest [] = None"
| "latest (r # rs) =
     (case latest rs of
        None \<Rightarrow> Some r
      | Some m \<Rightarrow> (if created_at r < created_at m then Some m else Some r))"

text \<open>
  \<^verbatim>\<open>SELECT * FROM otp_attempts WHERE phone_number = $1 AND expires_at > NOW() ORDER BY created_at DESC LIMIT 1\<close>
\<close>

definition mostRecentUnexpired :: "string \<Rightarrow> nat \<Rightarrow> db \<Rightarrow> otp_attempt option" where
  "mostRecentUnexpired pn now d =
     latest (filter (\<lambda>r. phone_number r = pn \<and> now < expires_at r) (otp_attempts d))"

text \<open>\<^verbatim>\<open>UPDATE otp_attempts SET ... WHERE id = $1\<close>\<close>

definition update_otp :: "nat \<Rightarrow> (otp_attempt \<Rightarrow> otp_attempt) \<Rightarrow> db \<Rightarrow> db" where
  "update_otp k f d =
     d\<lparr>otp_attempts := map (\<lambda>r. if otp_id r = k then f r else r) (otp_attempts d)\<rparr>"

text \<open>
  The trigger function \<^verbatim>\<open>create_seller_address\<close> of the schema scripts, run
  \<^verbatim>\<open>BEFORE INSERT OR UPDATE\<close> on each row of \<^verbatim>\<open>sellers\<close>: the address row of a non-null
  \<^verbatim>\<open>address_id\<close> is inserted unless one exists (\<^verbatim>\<open>ON CONFLICT DO NOTHING\<close>).
\<close>

definition create_seller_address :: "seller \<Rightarrow> address list \<Rightarrow> address list" where
  "create_seller_address new rows =
     (case address_id new of
        None \<Rightarrow> rows
      | Some a \<Rightarrow>
          if filter (\<lambda>r. addr_address_id r = a) rows \<noteq> [] then rows
          else rows @ [\<lparr>addr_address_id = a, addr_rest_id = Some (seller_id new),
                        address_type = Some ''restaurant''\<rparr>])"

text \<open>
  \<^verbatim>\<open>INSERT INTO sellers\<close>, with what the schema scripts attach to it: the primary key and the
  \<^verbatim>\<open>unique_phone\<close> constraint (a violation makes the statement throw: \<open>None\<close>), and the
  trigger.
\<close>

definition insert_seller :: "seller \<Rightarrow> db \<Rightarrow> db option" where
  "insert_seller s d =
     (if filter (\<lambda>t. seller_id t = seller_id s) (sellers d) \<noteq> []
         \<or> (rest_phone s \<noteq> None \<and> filter (\<lambda>t. rest_phone t = rest_phone s) (sellers d) \<noteq> [])
      then None
      else Some (d\<lparr>addresses := create_seller_address s (addresses d),
                   sellers := sellers d @ [s]\<rparr>))"

text \<open>
  \<^verbatim>\<open>UPDATE sellers SET last_login = NOW(), phone_verified = TRUE WHERE seller_id = $1\<close>, the
  trigger running on every row updated.
\<close>

definition update_login :: "string \<Rightarrow> nat \<Rightarrow> db \<Rightarrow> db" where
  "update_login sid now d =
     d\<lparr>addresses := fold create_seller_address
                       (filter (\<lambda>t. seller_id t = sid) (sellers d)) (addresses d),
       sellers := map (\<lambda>t. if seller_id t = sid
                            then t\<lparr>last_login := Some now, phone_verified := True\<rparr> else t)
                    (sellers d)\<rparr>"

definition insert_auth_session :: "string \<Rightarrow> string \<Rightarrow> request \<Rightarrow> nat \<Rightarrow> db \<Rightarrow> db" where
  "insert_auth_session sid h req now d =
     d\<lparr>auth_sessions := auth_sessions d @
        [\<lparr>sess_session_id = fresh_id (map sess_session_id (auth_sessions d)),
          sess_seller_id = sid, refresh_token_hash = h, device_info = user_agent_header req,
          sess_ip_address = ip req, sess_created_at = now,
          sess_expires_at = now + 7 * 24 * 60 * 60, is_active = True, last_used = now\<rparr>]\<rparr>"

definition access_claims :: "seller \<Rightarrow> string option \<Rightarrow> claims" where
  "access_claims s ph =
     \<lparr>userId = Some (seller_id s), id_claim = None, sub = None, phone = ph,
      name = Some (owner_name s), restaurant = Some (restaurant_name s),
      addressId = address_id s, menuId = menu_id s, token_type = Some ''access''\<rparr>"

definition refresh_claims :: "seller \<Rightarrow> string option \<Rightarrow> claims" where
  "refresh_claims s ph =
     \<lparr>userId = Some (seller_id s), id_claim = None, sub = None, phone = ph,
      name = None, restaurant = None, addressId = None, menuId = None,
      token_type = Some ''refresh''\<rparr>"

definition user_of :: "seller \<Rightarrow> string option \<Rightarrow> user_view" where
  "user_of s ph =
     \<lparr>user_id = seller_id s, user_name = owner_name s, user_phone = ph,
      user_restaurant = restaurant_name s, user_addressId = address_id s,
      user_menuId = menu_id s\<rparr>"

text \<open>
  The last part of the handler, from \<^verbatim>\<open>// Generate JWT tokens\<close> on: sign both tokens,
  store the session row, answer.
\<close>

definition issue_tokens ::
  "env \<Rightarrow> request \<Rightarrow> nat \<Rightarrow> string \<Rightarrow> bool \<Rightarrow> seller \<Rightarrow> db \<Rightarrow> response \<times> db" where
  "issue_tokens E req now pn isNewUser s d =
     (let accessToken = jwt_sign E (access_claims s (Some pn)) now (15 * 60);
          refreshToken = jwt_sign E (refresh_claims s (Some pn)) now (7 * 24 * 60 * 60);
          d1 = insert_auth_session (seller_id s) (hashToken E refreshToken) req now d
      in (Resp 200
            (VerifyBody (if isNewUser then ''Signup successful'' else ''Login successful'')
               isNewUser accessToken refreshToken 900 (user_of s (Some pn))),
          d1))"

text \<open>
  The first verification step: the provider is asked when the attempt carries a session id
  and was sent through it. The result is whether the provider accepted the code, and the
  network calls made.
\<close>

definition provider_check :: "env \<Rightarrow> otp_attempt \<Rightarrow> js_value \<Rightarrow> bool \<times> string list" where
  "provider_check E otpRecord code =
     (if truthy (session_id otpRecord) \<and> sms_provider otpRecord = ''2factor''
      then (let (factorResult, urls) = verify2FactorOTP E (str_or (session_id otpRecord) []) code
            in (success factorResult, urls))
      else (False, []))"

text \<open>
  The second step, when the provider did not accept the code: \<^verbatim>\<open>hashToken(otp)\<close> is compared
  with the stored hash. \<^verbatim>\<open>Hash.update\<close> throws for a value that is not a string.
\<close>

definition local_check :: "env \<Rightarrow> otp_attempt \<Rightarrow> bool \<Rightarrow> js_value \<Rightarrow> js_error + bool" where
  "local_check E otpRecord factorOk code =
     (if factorOk then Inr True
      else
        (case code of
           JString s \<Rightarrow> Inr (otp_hash otpRecord = hashToken E s)
         | JOther b t \<Rightarrow>
             Inl (TypeError ''The data argument must be of type string or an instance of Buffer'')
         | JUnprintable \<Rightarrow>
             Inl (TypeError ''The data argument must be of type string or an instance of Buffer'')))"

text \<open>
  The handler of \<^verbatim>\<open>POST /auth/verify-otp\<close>. \<open>pn\<close> is \<^verbatim>\<open>phoneNumber\<close> of the body, a string
  (empty when absent), \<open>code\<close> its \<^verbatim>\<open>otp\<close> (\<open>JString []\<close> when absent), \<open>signupData\<close> its
  optional object, \<open>newSellerId\<close> the identifier the handler builds from the clock and a
  random suffix. The first statement logs \<^verbatim>\<open>`${otp}`\<close> before the \<^verbatim>\<open>try\<close> block; an error
  thrown inside the block is answered with status 500 by the \<^verbatim>\<open>catch\<close> block.
\<close>

definition verify_otp ::
  "env \<Rightarrow> request \<Rightarrow> nat \<Rightarrow> string \<Rightarrow> js_value \<Rightarrow> signup_data option \<Rightarrow> string \<Rightarrow> db
     \<Rightarrow> response \<times> db \<times> string list" where
  "verify_otp E req now pn code signupData newSellerId d =
     (case template_text code of
        Inl e \<Rightarrow> (Unanswered e, d, [])
      | Inr logged \<Rightarrow>
     if pn = [] \<or> \<not> js_truthy code
      then (Resp 400 (ErrorBody ''Phone number and OTP required''), d, [])
      else
        (case mostRecentUnexpired pn now d of
           None \<Rightarrow>
             (Resp 400 (ErrorBody ''No valid OTP found or OTP expired''),
              logAuthEvent ''otp_verify'' (Some pn) None False (Some ''No valid OTP found'') req now d,
              [])
         | Some otpRecord \<Rightarrow>
             if attempts otpRecord \<ge> 3
             then (Resp 400 (ErrorBody ''Too many failed attempts''),
                   logAuthEvent ''otp_verify'' (Some pn) None False (Some ''Too many attempts'') req now d,
                   [])
             else
               (let (factorOk, calls) = provider_check E otpRecord code
                in case local_check E otpRecord factorOk code of
                     Inl e \<Rightarrow>
                       (Resp 500 (ErrorBody ''Failed to verify OTP''),
                        logAuthEvent ''otp_verify'' (Some pn) None False (Some (error_text e)) req now d,
                        calls)
                   | Inr otpVerified \<Rightarrow>
                (let verificationMethod = (if factorOk then ''2factor'' else ''local'')
                in if \<not> otpVerified
                   then (Resp 400 (ErrorBody ''Invalid OTP''),
                         logAuthEvent ''otp_verify'' (Some pn) None False (Some ''Invalid OTP'') req now
                           (update_otp (otp_id otpRecord) (\<lambda>r. r\<lparr>attempts := attempts r + 1\<rparr>) d),
                         calls)
                   else
                     (let d1 = update_otp (otp_id otpRecord)
                                 (\<lambda>r. r\<lparr>verified_at := Some now,
                                         sms_status := ''verified_'' @ verificationMethod\<rparr>) d
                      in if is_signup otpRecord
                         then
                           (case signupData of
                              None \<Rightarrow>
                                (Resp 400 (ErrorBody ''Owner name and restaurant name required for signup''),
                                 d1, calls)
                            | Some sd \<Rightarrow>
                                if \<not> truthy (ownerName sd) \<or> \<not> truthy (restaurantName sd)
                                then (Resp 400 (ErrorBody ''Owner name and restaurant name required for signup''),
                                      d1, calls)
                                else
                                  (let addressId = coalesce_max_plus_1 (map addr_address_id (addresses d1));
                                       menuId = coalesce_max_plus_1 (map row_id (menu d1));
                                       s = \<lparr>seller_id = newSellerId,
                                            owner_name = str_or (ownerName sd) [],
                                            restaurant_name = str_or (restaurantName sd) [],
                                            rest_phone = Some pn, phone_verified = True,
                                            account_status = ''active'', address_id = Some addressId,
                                            menu_id = Some menuId, last_login = None\<rparr>
                                   in case insert_seller s d1 of
                                        None \<Rightarrow>
                                          (Resp 500 (ErrorBody ''Failed to verify OTP''),
                                           logAuthEvent ''otp_verify'' (Some pn) None False
                                             (Some ''duplicate key value violates unique constraint'')
                                             req now d1,
                                           calls)
                                      | Some d2 \<Rightarrow>
                                          (let (resp, d3) =
                                                 issue_tokens E req now pn True s
                                                   (logAuthEvent ''signup'' (Some pn) (Some newSellerId)
                                                      True None req now d2)
                                           in (resp, d3, calls))))
                         else
                           (case first_row (sellers_by_phone pn d1) of
                              None \<Rightarrow> (Resp 404 (ErrorBody ''Seller not found''), d1, calls)
                            | Some s \<Rightarrow>
                                (let d2 = update_login (seller_id s) now d1;
                                     (resp, d3) =
                                       issue_tokens E req now pn False s
                                         (logAuthEvent ''login'' (Some pn) (Some (seller_id s))
                                            True None req now d2)
                                 in (resp, d3, calls))))))))"

section \<open>refresh, logout, the bearer handlers\<close>

text \<open>
  The handler of \<^verbatim>\<open>POST /auth/refresh\<close>; \<open>tok\<close> is \<^verbatim>\<open>req.body.refreshToken\<close>. A throw of
  \<^verbatim>\<open>jwt.verify\<close> lands in the \<^verbatim>\<open>catch\<close> branch.
\<close>

definition refresh :: "env \<Rightarrow> nat \<Rightarrow> string option \<Rightarrow> db \<Rightarrow> response \<times> db" where
  "refresh E now tok d =
     (if \<not> truthy tok
      then (Resp 400 (ErrorBody ''Refresh token required''), d)
      else
        (let refreshToken = str_or tok []
         in case jwt_verify E refreshToken now of
              None \<Rightarrow> (Resp 401 (ErrorBody ''Invalid or expired refresh token''), d)
            | Some payload \<Rightarrow>
                if token_type payload \<noteq> Some ''refresh''
                then (Resp 400 (ErrorBody ''Invalid token type''), d)
                else
                  (let refreshTokenHash = hashToken E refreshToken;
                       sessions =
                         filter (\<lambda>s. Some (sess_seller_id s) = userId payload
                                      \<and> refresh_token_hash s = refreshTokenHash
                                      \<and> is_active s \<and> now < sess_expires_at s)
                           (auth_sessions d)
                   in case first_row sessions of
                        None \<Rightarrow> (Resp 401 (ErrorBody ''Invalid or expired refresh token''), d)
                      | Some s0 \<Rightarrow>
                          (let d1 = d\<lparr>auth_sessions :=
                                        map (\<lambda>s. if sess_session_id s = sess_session_id s0
                                                  then s\<lparr>last_used := now\<rparr> else s)
                                          (auth_sessions d)\<rparr>
                           in case first_row (filter (\<lambda>s. Some (seller_id s) = userId payload)
                                                (sellers d1)) of
                                None \<Rightarrow> (Resp 404 (ErrorBody ''User not found''), d1)
                              | Some seller \<Rightarrow>
                                  (Resp 200
                                     (RefreshBody
                                        (jwt_sign E (access_claims seller (rest_phone seller)) now (15 * 60))
                                        900 (user_of seller (rest_phone seller))),
                                   d1)))))"

text \<open>
  \<^verbatim>\<open>authHeader.match(/^Bearer\s+(.*)$/i)\<close>: the word in any case, at least one white-space
  character, and the rest of the header, which may not hold a line terminator. A header value
  is a string of single-byte characters, where \<^verbatim>\<open>\s\<close> matches the space, the five control
  characters from tab to carriage return, and the no-break space.
\<close>

definition is_space :: "char \<Rightarrow> bool" where
  "is_space c =
     (c \<in> set [CHR '' '', CHR 0x09, CHR 0x0A, CHR 0x0B, CHR 0x0C, CHR 0x0D, CHR 0xA0])"

definition lower_ascii :: "char \<Rightarrow> char" where
  "lower_ascii c =
     (case map_of (zip ''ABCDEFGHIJKLMNOPQRSTUVWXYZ'' ''abcdefghijklmnopqrstuvwxyz'') c of
        None \<Rightarrow> c
      | Some l \<Rightarrow> l)"

definition bearer_match :: "string \<Rightarrow> string option" where
  "bearer_match h =
     (let rest = dropWhile is_space (drop 6 h)
      in if map lower_ascii (take 6 h) = ''bearer'' \<and> 6 < length h \<and> is_space (h ! 6)
            \<and> filter (\<lambda>c. c = CHR 0x0A \<or> c = CHR 0x0D) rest = []
         then Some rest else None)"

text \<open>
  \<^verbatim>\<open>authMiddleware\<close>, mounted on every \<^verbatim>\<open>/api\<close> route: it answers itself, or calls
  \<^verbatim>\<open>next()\<close> with \<^verbatim>\<open>req.userId\<close> set.
\<close>

datatype middleware_result = Next "string option" | Answered response

definition authMiddleware :: "env \<Rightarrow> nat \<Rightarrow> request \<Rightarrow> middleware_result" where
  "authMiddleware E now req =
     (case bearer_match (str_or (authorization req) []) of
        None \<Rightarrow> Answered (Resp 401 (ErrorBody ''Missing Bearer token''))
      | Some token \<Rightarrow>
          (case jwt_verify E token now of
             None \<Rightarrow> Answered (Resp 401 (ErrorBody ''Invalid or expired token''))
           | Some payload \<Rightarrow> Next (js_or (js_or (userId payload) (id_claim payload)) (sub payload))))"

text \<open>
  The handler of \<^verbatim>\<open>GET /auth/me\<close>. A seller's \<^verbatim>\<open>address_id\<close> is looked up when it is
  truthy (not null and not 0).
\<close>

definition me :: "env \<Rightarrow> nat \<Rightarrow> request \<Rightarrow> db \<Rightarrow> response" where
  "me E now req d =
     (case bearer_match (str_or (authorization req) []) of
        None \<Rightarrow> Resp 401 (ErrorBody ''Missing Bearer token'')
      | Some token \<Rightarrow>
          (case jwt_verify E token now of
             None \<Rightarrow> Resp 401 (ErrorBody ''Invalid or expired token'')
           | Some payload \<Rightarrow>
               if token_type payload \<noteq> Some ''access''
               then Resp 401 (ErrorBody ''Invalid token type'')
               else
                 (case first_row (filter (\<lambda>s. Some (seller_id s) = userId payload) (sellers d)) of
                    None \<Rightarrow> Resp 404 (ErrorBody ''User not found'')
                  | Some seller \<Rightarrow>
                      Resp 200
                        (MeBody (user_of seller (rest_phone seller)) (account_status seller)
                           (last_login seller)
                           (case address_id seller of
                              None \<Rightarrow> None
                            | Some a \<Rightarrow>
                                if a = 0 then None
                                else first_row (filter (\<lambda>r. addr_address_id r = a) (addresses d)))))))"

text \<open>The handler of \<^verbatim>\<open>POST /auth/logout\<close>; \<open>tok\<close> is \<^verbatim>\<open>req.body.refreshToken\<close>.\<close>

definition logout :: "env \<Rightarrow> nat \<Rightarrow> request \<Rightarrow> string option \<Rightarrow> db \<Rightarrow> response \<times> db" where
  "logout E now req tok d =
     (let sellerId =
            (case bearer_match (str_or (authorization req) []) of
               None \<Rightarrow> None
             | Some accessToken \<Rightarrow>
                 (case jwt_verify E accessToken now of
                    None \<Rightarrow> None
                  | Some payload \<Rightarrow> userId payload));
          d1 = (if truthy tok
                then d\<lparr>auth_sessions :=
                         map (\<lambda>s. if refresh_token_hash s = hashToken E (str_or tok [])
                                   then s\<lparr>is_active := False\<rparr> else s)
                           (auth_sessions d)\<rparr>
                else d);
          d2 = (if truthy sellerId then logAuthEvent ''logout'' None sellerId True None req now d1
                else d1)
      in (Resp 200 (LogoutBody ''Logged out successfully''), d2))"

section \<open>Cascade deletion of a seller\<close>

text \<open>
  A query runner: \<open>committed\<close> is the datastore as every other connection reads it, which
  changes at a commit only; \<open>working\<close> is the datastore as the statements of the runner's
  transaction have left it; \<open>isTransactionActive\<close> and \<open>isReleased\<close> are the runner's flags
  of these names. \<open>visible\<close> records, after each call on the runner, the datastore another
  connection would have read at that moment.
\<close>

record query_runner =
  committed :: db
  working :: db
  isTransactionActive :: bool
  isReleased :: bool
  visible :: "db list"

definition createQueryRunner :: "db \<Rightarrow> query_runner" where
  "createQueryRunner d =
     \<lparr>committed = d, working = d, isTransactionActive = False, isReleased = False, visible = []\<rparr>"

definition observed :: "query_runner \<Rightarrow> query_runner" where
  "observed q = q\<lparr>visible := visible q @ [committed q]\<rparr>"

text \<open>
  Whether a statement throws (connection lost, constraint violated, ...) is for the datastore
  to decide: \<open>fails k w\<close> tells whether the \<open>k\<close>-th call on the runner throws when the
  working state is \<open>w\<close>. A failed call carries the runner as it stood. A rollback and the
  release of the runner are taken not to throw.
\<close>

type_synonym failures = "nat \<Rightarrow> db \<Rightarrow> bool"

type_synonym 'a attempt = "(js_error \<times> query_runner) + 'a"

definition query :: "failures \<Rightarrow> nat \<Rightarrow> (db \<Rightarrow> db) \<Rightarrow> query_runner \<Rightarrow> query_runner attempt" where
  "query fails k stmt q =
     (if fails k (working q) then Inl (Error ''query failed'', observed q)
      else Inr (observed (q\<lparr>working := stmt (working q)\<rparr>)))"

definition and_then :: "'a attempt \<Rightarrow> ('a \<Rightarrow> 'b attempt) \<Rightarrow> 'b attempt" where
  "and_then r f = (case r of Inl e \<Rightarrow> Inl e | Inr x \<Rightarrow> f x)"

definition startTransaction :: "query_runner \<Rightarrow> query_runner" where
  "startTransaction q = observed (q\<lparr>isTransactionActive := True\<rparr>)"

definition commitTransaction :: "failures \<Rightarrow> nat \<Rightarrow> query_runner \<Rightarrow> query_runner attempt" where
  "commitTransaction fails k q =
     (if fails k (working q) then Inl (Error ''commit failed'', observed q)
      else Inr (observed (q\<lparr>committed := working q, isTransactionActive := False\<rparr>)))"

definition rollbackTransaction :: "query_runner \<Rightarrow> query_runner" where
  "rollbackTransaction q = observed (q\<lparr>working := committed q, isTransactionActive := False\<rparr>)"

definition release :: "query_runner \<Rightarrow> query_runner" where
  "release q = q\<lparr>isReleased := True\<rparr>"

datatype related_table = Collection | Likes | Menu | Order_list | Orders | Rating

definition relatedTables :: "related_table list" where
  "relatedTables = [Collection, Likes, Menu, Order_list, Orders, Rating]"

text \<open>\<^verbatim>\<open>DELETE FROM ${table} WHERE rest_id = $1\<close>\<close>

definition delete_by_rest_id :: "related_table \<Rightarrow> string \<Rightarrow> db \<Rightarrow> db" where
  "delete_by_rest_id t sellerId w =
     (let keep = filter (\<lambda>r. rest_id r \<noteq> sellerId)
      in case t of
           Collection \<Rightarrow> w\<lparr>collection := keep (collection w)\<rparr>
         | Likes \<Rightarrow> w\<lparr>likes := keep (likes w)\<rparr>
         | Menu \<Rightarrow> w\<lparr>menu := keep (menu w)\<rparr>
         | Order_list \<Rightarrow> w\<lparr>order_list := keep (order_list w)\<rparr>
         | Orders \<Rightarrow> w\<lparr>orders := keep (orders w)\<rparr>
         | Rating \<Rightarrow> w\<lparr>rating := keep (rating w)\<rparr>)"

text \<open>The \<^verbatim>\<open>for\<close> loop over \<^verbatim>\<open>relatedTables\<close>; \<open>k\<close> numbers the calls on the runner.\<close>

fun delete_related ::
  "failures \<Rightarrow> nat \<Rightarrow> related_table list \<Rightarrow> string \<Rightarrow> query_runner \<Rightarrow> query_runner attempt" where
  "delete_related fails k [] sellerId q = Inr q"
| "delete_related fails k (t # ts) sellerId q =
     and_then (query fails k (delete_by_rest_id t sellerId) q)
       (delete_related fails (Suc k) ts sellerId)"

text \<open>
  Step 6 of the \<^verbatim>\<open>try\<close> block: when the address id read in step 4 (\<open>linked\<close>) is truthy, count the
  sellers that carry it (the seller itself is deleted by then) and delete the address row
  when there is none.
\<close>

definition delete_unused_address ::
  "failures \<Rightarrow> int option \<Rightarrow> query_runner \<Rightarrow> query_runner attempt" where
  "delete_unused_address fails linked q4 =
     (case linked of
        None \<Rightarrow> Inr q4
      | Some a \<Rightarrow>
          if a = 0 then Inr q4
          else and_then (query fails 11 (\<lambda>w. w) q4)
                 (\<lambda>q5. if length (filter (\<lambda>s. address_id s = Some a) (sellers (working q5))) = 0
                        then query fails 12
                               (\<lambda>w. w\<lparr>addresses := filter (\<lambda>r. addr_address_id r \<noteq> a) (addresses w)\<rparr>)
                               q5
                        else Inr q5))"

text \<open>
  Step 5 of the \<^verbatim>\<open>try\<close> block, \<^verbatim>\<open>DELETE FROM sellers WHERE seller_id = $1\<close>. The audit log
  declares \<^verbatim>\<open>seller_id VARCHAR REFERENCES sellers(seller_id)\<close> with no action on delete, so
  the statement throws when it would delete a seller that a log row names. The sessions, the
  menu rows and the offers of a seller are declared \<^verbatim>\<open>ON DELETE CASCADE\<close>; the sessions and
  the menu rows are deleted by then anyway.
\<close>

definition referenced_in_auth_logs :: "string \<Rightarrow> db \<Rightarrow> bool" where
  "referenced_in_auth_logs sellerId w =
     (filter (\<lambda>s. seller_id s = sellerId) (sellers w) \<noteq> []
      \<and> filter (\<lambda>l. log_seller_id l = Some sellerId) (auth_logs w) \<noteq> [])"

definition delete_seller_row :: "failures \<Rightarrow> string \<Rightarrow> query_runner \<Rightarrow> query_runner attempt" where
  "delete_seller_row fails sellerId q3 =
     (if referenced_in_auth_logs sellerId (working q3)
      then Inl (Error ''update or delete on table sellers violates foreign key constraint on table auth_logs'',
                observed q3)
      else query fails 10
             (\<lambda>w. w\<lparr>sellers := filter (\<lambda>s. seller_id s \<noteq> sellerId) (sellers w)\<rparr>) q3)"

text \<open>
  The \<^verbatim>\<open>try\<close> block of \<^verbatim>\<open>handleSellerDeletion\<close>. Calls 0 and 1 on the runner are
  \<^verbatim>\<open>connect\<close> and \<^verbatim>\<open>startTransaction\<close>; the statements follow from 2.
\<close>

definition handleSellerDeletion_try ::
  "failures \<Rightarrow> string \<Rightarrow> query_runner \<Rightarrow> query_runner attempt" where
  "handleSellerDeletion_try fails sellerId q =
     and_then (query fails 2
                 (\<lambda>w. w\<lparr>auth_sessions := filter (\<lambda>s. sess_seller_id s \<noteq> sellerId) (auth_sessions w)\<rparr>) q)
     (\<lambda>q1. and_then (delete_related fails 3 relatedTables sellerId q1)
     (\<lambda>q2. and_then (query fails 9 (\<lambda>w. w) q2)
     (\<lambda>q3.
        (let sellerResult = filter (\<lambda>s. seller_id s = sellerId) (sellers (working q3));
             addressId = (case first_row sellerResult of None \<Rightarrow> None | Some s \<Rightarrow> address_id s)
         in and_then (delete_seller_row fails sellerId q3)
            (\<lambda>q4. and_then (delete_unused_address fails addressId q4)
                     (commitTransaction fails 13))))))"

text \<open>
  \<^verbatim>\<open>handleSellerDeletion\<close>: the error thrown to the caller, if any, and the runner as the
  function leaves it. \<^verbatim>\<open>connect\<close> and \<^verbatim>\<open>startTransaction\<close> stand before the \<^verbatim>\<open>try\<close>: when
  one of them throws, neither \<^verbatim>\<open>catch\<close> nor \<^verbatim>\<open>finally\<close> runs.
\<close>

definition handleSellerDeletion ::
  "failures \<Rightarrow> string \<Rightarrow> db \<Rightarrow> (js_error + unit) \<times> query_runner" where
  "handleSellerDeletion fails sellerId d =
     (let queryRunner = createQueryRunner d
      in if fails 0 d then (Inl (Error ''connect failed''), queryRunner)
         else if fails 1 d then (Inl (Error ''startTransaction failed''), queryRunner)
         else
           (case handleSellerDeletion_try fails sellerId (startTransaction queryRunner) of
              Inr q \<Rightarrow> (Inr (), release q)
            | Inl (e, q) \<Rightarrow> (Inl e, release (rollbackTransaction q))))"

text \<open>
  \<^verbatim>\<open>DELETE /api/sellers/:id\<close> of the table router: the response, and the datastore as the
  other connections read it afterwards.
\<close>

definition delete_seller_route :: "failures \<Rightarrow> string \<Rightarrow> db \<Rightarrow> response \<times> db" where
  "delete_seller_route fails sellerId d =
     (case handleSellerDeletion fails sellerId d of
        (Inr u, q) \<Rightarrow> (Resp 204 NoContent, committed q)
      | (Inl e, q) \<Rightarrow> (Resp 500 (ErrorBody (error_text e)), committed q))"

text \<open>
  The datastore a committed cascade leaves, written out table by table, for comparison with
  what the transaction computes: the sessions and the rows of the six related tables of the
  seller are gone, the seller row is gone, and the address row the seller was linked to is
  gone when its id is truthy (not null, not 0) and no remaining seller carries it. Nothing
  else differs; the audit log in particular is as it was.
\<close>

definition cascade_deleted :: "string \<Rightarrow> db \<Rightarrow> db" where
  "cascade_deleted sellerId d =
     (let remaining = filter (\<lambda>s. seller_id s \<noteq> sellerId) (sellers d);
          linked = (case first_row (filter (\<lambda>s. seller_id s = sellerId) (sellers d)) of
                      None \<Rightarrow> None
                    | Some s \<Rightarrow> address_id s)
      in d\<lparr>sellers := remaining,
           addresses :=
             (case linked of
                None \<Rightarrow> addresses d
              | Some a \<Rightarrow>
                  if a \<noteq> 0 \<and> filter (\<lambda>s. address_id s = Some a) remaining = []
                  then filter (\<lambda>r. addr_address_id r \<noteq> a) (addresses d)
                  else addresses d),
           auth_sessions := filter (\<lambda>s. sess_seller_id s \<noteq> sellerId) (auth_sessions d),
           collection := filter (\<lambda>r. rest_id r \<noteq> sellerId) (collection d),
           likes := filter (\<lambda>r. rest_id r \<noteq> sellerId) (likes d),
           menu := filter (\<lambda>r. rest_id r \<noteq> sellerId) (menu d),
           order_list := filter (\<lambda>r. rest_id r \<noteq> sellerId) (order_list d),
           orders := filter (\<lambda>r. rest_id r \<noteq> sellerId) (orders d),
           rating := filter (\<lambda>r. rest_id r \<noteq> sellerId) (rating d)\<rparr>)"

text \<open>
  Predicates on the outcome of a step of the transaction, used in the proofs. A runner is
  sound for \<open>c\<close> when \<open>c\<close> is its committed state and all that other connections have read so
  far; \<open>runner_intact\<close> says so of the runner a step leaves, whether the step failed or not;
  \<open>failure_intact\<close> says it for a failed step only (a successful commit changes the
  committed state).
\<close>

definition runner_sound :: "db \<Rightarrow> query_runner \<Rightarrow> bool" where
  "runner_sound c q = (committed q = c \<and> list_all (\<lambda>v. v = c) (visible q))"

definition runner_intact :: "db \<Rightarrow> query_runner attempt \<Rightarrow> bool" where
  "runner_intact c r = (case r of Inl (e, q) \<Rightarrow> runner_sound c q | Inr q \<Rightarrow> runner_sound c q)"

definition failure_intact :: "db \<Rightarrow> query_runner attempt \<Rightarrow> bool" where
  "failure_intact c r = (case r of Inl (e, q) \<Rightarrow> runner_sound c q | Inr q \<Rightarrow> True)"

text \<open>
  What a committed runner looks like: no transaction is open, the working state is the
  committed one, and other connections have read \<open>c\<close> or the committed state only.
\<close>

definition commit_shape :: "db \<Rightarrow> query_runner attempt \<Rightarrow> bool" where
  "commit_shape c r =
     (case r of
        Inl x \<Rightarrow> True
      | Inr q \<Rightarrow> working q = committed q \<and> \<not> isTransactionActive q
                 \<and> list_all (\<lambda>v. v = c \<or> v = committed q) (visible q))"

section \<open>Concrete data\<close>

text \<open>
  A small instance of the collaborators and of the datastore, on which the theorems below are
  also evaluated: the provider times out, the hash prefixes a character, the token library
  knows the token \<open>''R''\<close> (a refresh token of seller \<open>''S1''\<close>) and the token \<open>''A''\<close>
  (an access token of the same seller).
\<close>

definition demo_claims :: "string \<Rightarrow> claims" where
  "demo_claims ty =
     \<lparr>userId = Some ''S1'', id_claim = None, sub = None, phone = Some ''9999999999'',
      name = None, restaurant = None, addressId = None, menuId = None, token_type = Some ty\<rparr>"

definition demo_env :: env where
  "demo_env =
     \<lparr>TWOFACTOR_API_KEY = ''key'',
      axios_get = (\<lambda>url. TimedOut ''timeout of 10000ms exceeded''),
      sha256_hex = (\<lambda>s. CHR ''#'' # s),
      jwt_sign = (\<lambda>c now ttl. if token_type c = Some ''refresh'' then ''R'' else ''A''),
      jwt_verify = (\<lambda>t now. if t = ''R'' then Some (demo_claims ''refresh'')
                              else if t = ''A'' then Some (demo_claims ''access'') else None)\<rparr>"

definition demo_req :: request where
  "demo_req = \<lparr>ip = ''10.0.0.1'', user_agent_header = None, authorization = Some ''Bearer R''\<rparr>"

definition demo_seller :: seller where
  "demo_seller =
     \<lparr>seller_id = ''S1'', owner_name = ''Asha'', restaurant_name = ''Dosa Hut'',
      rest_phone = Some ''9999999999'', phone_verified = True, account_status = ''active'',
      address_id = Some 7, menu_id = Some 3, last_login = None\<rparr>"

definition demo_attempt :: otp_attempt where
  "demo_attempt =
     \<lparr>otp_id = 1, phone_number = ''9999999999'', otp_hash = ''#1234'', attempts = 0,
      created_at = 1000, expires_at = 1300, verified_at = None, ip_address = ''10.0.0.1'',
      is_signup = False, session_id = None, sms_provider = ''console'', sms_status = ''fallback''\<rparr>"

definition demo_session :: auth_session where
  "demo_session =
     \<lparr>sess_session_id = 1, sess_seller_id = ''S1'', refresh_token_hash = ''#R'',
      device_info = None, sess_ip_address = ''10.0.0.1'', sess_created_at = 1000,
      sess_expires_at = 605800, is_active = True, last_used = 1000\<rparr>"

definition demo_log :: auth_log where
  "demo_log =
     \<lparr>log_seller_id = Some ''S1'', log_phone_number = Some ''9999999999'', event_type = ''login'',
      log_ip_address = ''10.0.0.1'', user_agent = ''Unknown'', log_success = True,
      error_message = None, log_created_at = 1000\<rparr>"

text \<open>
  An attempt sent through the provider, and a provider that answers every request with a
  mismatch.
\<close>

definition sent_attempt :: otp_attempt where
  "sent_attempt =
     demo_attempt\<lparr>session_id := Some ''sess-1'', sms_provider := ''2factor'', sms_status := ''sent''\<rparr>"

definition rejecting_env :: env where
  "rejecting_env =
     demo_env\<lparr>axios_get := (\<lambda>url. Replied (Some \<lparr>Status = ''Error'', Details = Some ''OTP Mismatch''\<rparr>))\<rparr>"

text \<open>A token library whose access token spells out the payload it signs.\<close>

definition opt_text :: "string option \<Rightarrow> string" where
  "opt_text x = (case x of None \<Rightarrow> ''-'' | Some s \<Rightarrow> s)"

definition opt_digit :: "int option \<Rightarrow> string" where
  "opt_digit x = (case x of None \<Rightarrow> ''-'' | Some i \<Rightarrow> [''0123456789'' ! (nat i mod 10)])"

definition render_claims :: "claims \<Rightarrow> string" where
  "render_claims c =
     opt_text (userId c) @ ''|'' @ opt_text (phone c) @ ''|'' @ opt_text (name c) @ ''|''
       @ opt_text (restaurant c) @ ''|'' @ opt_digit (addressId c) @ ''|'' @ opt_digit (menuId c)
       @ ''|'' @ opt_text (token_type c)"

definition rendering_env :: env where
  "rendering_env = demo_env\<lparr>jwt_sign := (\<lambda>c now ttl. render_claims c)\<rparr>"

definition empty_db :: db where
  "empty_db =
     \<lparr>sellers = [], addresses = [], otp_attempts = [], auth_sessions = [], auth_logs = [],
      collection = [], likes = [], menu = [], order_list = [], orders = [], rating = []\<rparr>"

definition demo_db :: db where
  "demo_db =
     empty_db\<lparr>sellers := [demo_seller],
              addresses := [\<lparr>addr_address_id = 7, addr_rest_id = Some ''S1'',
                             address_type = Some ''restaurant''\<rparr>],
              otp_attempts := [demo_attempt],
              auth_sessions := [demo_session],
              auth_logs := [demo_log],
              menu := [\<lparr>row_id = 3, rest_id = ''S1''\<rparr>, \<lparr>row_id = 4, rest_id = ''S2''\<rparr>],
              orders := [\<lparr>row_id = 1, rest_id = ''S1''\<rparr>]\<rparr>"

section \<open>Properties of the adapter\<close>

lemma send2FactorOTP_returns:
  "v \<noteq> JUnprintable \<Longrightarrow> \<exists>r. fst (send2FactorOTP E v otp) = Inr r"
  by (cases v) (simp_all add: send2FactorOTP_def template_text_def split: prod.splits sum.splits)

lemma send2FactorOTP_JString:
  "send2FactorOTP E (JString p) otp =
     (case send2FactorOTP_try E (JString p) otp of
        (Inr r, calls) \<Rightarrow> (Inr r, calls)
      | (Inl e, calls) \<Rightarrow> (Inr (send2FactorOTP_catch e), calls))"
  by (simp add: send2FactorOTP_def template_text_def)

text \<open>
  C9, as the code has it. The first statement of the send operation formats the phone number
  for the log before the \<^verbatim>\<open>try\<close> block is entered; for an object whose conversion to a string
  throws, the operation throws that error to its caller and makes no network call.
\<close>

theorem send2FactorOTP_unprintable_counterexample:
  "send2FactorOTP demo_env JUnprintable (JString ''1234'')
     = (Inl (TypeError ''Cannot convert object to primitive value''), [])"
  by (simp add: send2FactorOTP_def template_text_def)

text \<open>
  C9, amended. For every phone number argument that can be formatted as text (every string,
  number, boolean, \<^verbatim>\<open>null\<close>, array and object with a working conversion) the send operation of
  the adapter returns a result object and throws nothing to its caller; for the remaining
  arguments it throws before any network call. When the phone number is no string, or, after
  the country prefix and every non-digit are stripped, does not have exactly 10 digits, the
  result is a failure and no network call was made; so it is when the code to send cannot be
  formatted. A timeout of the request, an HTTP error, any other rejection and a reply whose
  status is not \<open>Success\<close> each give a failure result too.
\<close>

theorem send2FactorOTP_structured_result:
  "(v \<noteq> JUnprintable \<longrightarrow> (\<exists>r. fst (send2FactorOTP E v otp) = Inr r)) \<and>
   (v = JUnprintable \<longrightarrow>
        send2FactorOTP E v otp = (Inl (TypeError ''Cannot convert object to primitive value''), [])) \<and>
   (\<forall>b t. v = JOther b t \<longrightarrow> (\<exists>r. send2FactorOTP E v otp = (Inr r, []) \<and> \<not> success r)) \<and>
   (\<forall>p. v = JString p \<longrightarrow> length (cleanPhoneNumber p) \<noteq> 10 \<longrightarrow>
        send2FactorOTP E v otp
          = (Inr (sms_failed ''Failed to send SMS'' ''Invalid phone number format. Must be 10 digits.''), [])) \<and>
   (\<forall>p e. v = JString p \<longrightarrow> length (cleanPhoneNumber p) = 10 \<longrightarrow> otp_segment otp = Inl e \<longrightarrow>
        (\<exists>r. send2FactorOTP E v otp = (Inr r, []) \<and> \<not> success r)) \<and>
   (\<forall>p segment url. v = JString p \<longrightarrow> length (cleanPhoneNumber p) = 10 \<longrightarrow>
        otp_segment otp = Inr segment \<longrightarrow> url = sms_url E (cleanPhoneNumber p) segment \<longrightarrow>
        (\<forall>m. axios_get E url = TimedOut m \<longrightarrow>
             send2FactorOTP E v otp
               = (Inr (sms_failed ''SMS service timeout. Please try again.'' m), [url])) \<and>
        (\<forall>st d. axios_get E url = HttpError st d \<longrightarrow>
             send2FactorOTP E v otp = (Inr (sms_failed (''SMS service error: '' @ st) d), [url])) \<and>
        (\<forall>m. axios_get E url = OtherError m \<longrightarrow>
             send2FactorOTP E v otp = (Inr (sms_failed ''Failed to send SMS'' m), [url])) \<and>
        (\<forall>data. axios_get E url = Replied data \<longrightarrow>
             (\<forall>a. data = Some a \<longrightarrow> Status a \<noteq> ''Success'') \<longrightarrow>
             (\<exists>r. send2FactorOTP E v otp = (Inr r, [url]) \<and> \<not> success r)))"
  apply (intro conjI allI impI)
          apply (erule send2FactorOTP_returns)
         apply (simp add: send2FactorOTP_def template_text_def)
        apply (simp add: send2FactorOTP_def template_text_def send2FactorOTP_try_def send2FactorOTP_catch_def sms_failed_def)
       apply (simp add: send2FactorOTP_JString send2FactorOTP_try_def send2FactorOTP_catch_def)
      apply (simp add: send2FactorOTP_JString send2FactorOTP_try_def send2FactorOTP_catch_def sms_failed_def split: js_error.splits)
     apply (simp add: send2FactorOTP_JString send2FactorOTP_try_def send2FactorOTP_catch_def await_get_def Let_def)
    apply (simp add: send2FactorOTP_JString send2FactorOTP_try_def send2FactorOTP_catch_def await_get_def Let_def)
   apply (simp add: send2FactorOTP_JString send2FactorOTP_try_def send2FactorOTP_catch_def await_get_def Let_def)
  apply (simp add: send2FactorOTP_JString send2FactorOTP_try_def send2FactorOTP_catch_def await_get_def Let_def sms_failed_def split: option.splits)
  done

lemma cleanPhoneNumber_prefixed: "cleanPhoneNumber ''+91 99999-99999'' = ''9999999999''"
  by (simp add: cleanPhoneNumber_def is_digit_def)

lemma cleanPhoneNumber_short: "cleanPhoneNumber ''12345'' = ''12345''"
  by (simp add: cleanPhoneNumber_def is_digit_def)

lemma otp_segment_JString: "s \<noteq> [] \<Longrightarrow> otp_segment (JString s) = Inr s"
  by (simp add: otp_segment_def js_truthy_def template_text_def)

theorem send2FactorOTP_structured_result_witness:
  "(\<exists>r. fst (send2FactorOTP demo_env (JOther True ''9999999999'') (JString ''1234'')) = Inr r) \<and>
   send2FactorOTP demo_env JUnprintable (JString ''1234'')
     = (Inl (TypeError ''Cannot convert object to primitive value''), []) \<and>
   length (cleanPhoneNumber ''12345'') \<noteq> 10 \<and>
   send2FactorOTP demo_env (JString ''12345'') (JString ''1234'')
     = (Inr (sms_failed ''Failed to send SMS'' ''Invalid phone number format. Must be 10 digits.''), []) \<and>
   length (cleanPhoneNumber ''+91 99999-99999'') = 10 \<and>
   otp_segment JUnprintable = Inl (TypeError ''Cannot convert object to primitive value'') \<and>
   (\<exists>r. send2FactorOTP demo_env (JString ''+91 99999-99999'') JUnprintable = (Inr r, [])
         \<and> \<not> success r) \<and>
   otp_segment (JString ''1234'') = Inr ''1234'' \<and>
   axios_get demo_env (sms_url demo_env (cleanPhoneNumber ''+91 99999-99999'') ''1234'')
     = TimedOut ''timeout of 10000ms exceeded'' \<and>
   send2FactorOTP demo_env (JString ''+91 99999-99999'') (JString ''1234'')
     = (Inr (sms_failed ''SMS service timeout. Please try again.'' ''timeout of 10000ms exceeded''),
        [sms_url demo_env ''9999999999'' ''1234'']) \<and>
   send2FactorOTP (demo_env\<lparr>axios_get := \<lambda>url. HttpError ''503'' ''unavailable''\<rparr>)
       (JString ''+91 99999-99999'') (JString ''1234'')
     = (Inr (sms_failed ''SMS service error: 503'' ''unavailable''),
        [sms_url demo_env ''9999999999'' ''1234'']) \<and>
   (\<exists>r. send2FactorOTP
           (demo_env\<lparr>axios_get := \<lambda>url. Replied (Some \<lparr>Status = ''Error'', Details = Some ''Invalid API Key''\<rparr>)\<rparr>)
           (JString ''+91 99999-99999'') (JString ''1234'')
         = (Inr r, [sms_url demo_env ''9999999999'' ''1234'']) \<and> \<not> success r) \<and>
   (\<exists>r. send2FactorOTP demo_env (JOther True ''9999999999'') (JString ''1234'') = (Inr r, [])
         \<and> \<not> success r)"
proof -
  let ?p = "''+91 99999-99999''"
  let ?o = "JString ''1234''"
  let ?E1 = "demo_env\<lparr>axios_get := \<lambda>url. HttpError ''503'' ''unavailable''\<rparr>"
  let ?E2 = "demo_env\<lparr>axios_get := \<lambda>url. Replied (Some \<lparr>Status = ''Error'', Details = Some ''Invalid API Key''\<rparr>)\<rparr>"
  have u1: "sms_url ?E1 c o' = sms_url demo_env c o'" for c o'
    by (simp add: sms_url_def)
  have u2: "sms_url ?E2 c o' = sms_url demo_env c o'" for c o'
    by (simp add: sms_url_def)
  have t: "axios_get demo_env u = TimedOut ''timeout of 10000ms exceeded''" for u
    by (simp add: demo_env_def)
  have s: "otp_segment ?o = Inr ''1234''"
    by (simp add: otp_segment_JString)
  have s': "otp_segment JUnprintable = Inl (TypeError ''Cannot convert object to primitive value'')"
    by (simp add: otp_segment_def js_truthy_def template_text_def)
  note a = send2FactorOTP_structured_result [of "JString ''12345''" demo_env ?o]
  note b = send2FactorOTP_structured_result [of "JString ?p" demo_env ?o]
  note c = send2FactorOTP_structured_result [of "JString ?p" ?E1 ?o]
  note d = send2FactorOTP_structured_result [of "JString ?p" ?E2 ?o]
  note e = send2FactorOTP_structured_result [of "JOther True ''9999999999''" demo_env ?o]
  note f = send2FactorOTP_structured_result [of JUnprintable demo_env ?o]
  note g = send2FactorOTP_structured_result [of "JString ?p" demo_env JUnprintable]
  from a have 1: "send2FactorOTP demo_env (JString ''12345'') ?o
     = (Inr (sms_failed ''Failed to send SMS'' ''Invalid phone number format. Must be 10 digits.''), [])"
    by (simp add: cleanPhoneNumber_short)
  from b have 2: "send2FactorOTP demo_env (JString ?p) ?o
     = (Inr (sms_failed ''SMS service timeout. Please try again.'' ''timeout of 10000ms exceeded''),
        [sms_url demo_env ''9999999999'' ''1234''])"
    by (simp add: cleanPhoneNumber_prefixed t s)
  from c have 3: "send2FactorOTP ?E1 (JString ?p) ?o
     = (Inr (sms_failed ''SMS service error: 503'' ''unavailable''),
        [sms_url demo_env ''9999999999'' ''1234''])"
    by (simp add: cleanPhoneNumber_prefixed u1 s)
  from d have 4: "\<exists>r. send2FactorOTP ?E2 (JString ?p) ?o
         = (Inr r, [sms_url demo_env ''9999999999'' ''1234'']) \<and> \<not> success r"
    by (simp add: cleanPhoneNumber_prefixed u2 s)
  from e have 5: "\<exists>r. send2FactorOTP demo_env (JOther True ''9999999999'') ?o = (Inr r, []) \<and> \<not> success r"
    by (simp add: exI [of "\<lambda>b. b" True])
  from e have 6: "\<exists>r. fst (send2FactorOTP demo_env (JOther True ''9999999999'') ?o) = Inr r"
    by simp
  from f have 7: "send2FactorOTP demo_env JUnprintable ?o
     = (Inl (TypeError ''Cannot convert object to primitive value''), [])"
    by simp
  from g have 8: "\<exists>r. send2FactorOTP demo_env (JString ?p) JUnprintable = (Inr r, []) \<and> \<not> success r"
    by (simp add: cleanPhoneNumber_prefixed s')
  show ?thesis using 1 2 3 4 5 6 7 8
    by (simp add: cleanPhoneNumber_prefixed cleanPhoneNumber_short t s s')
qed

section \<open>Properties of verify-otp\<close>

lemma template_text_JString [simp]: "template_text (JString s) = Inr s"
  by (simp add: template_text_def)

lemma js_truthy_JString [simp]: "js_truthy (JString s) = (s \<noteq> [])"
  by (simp add: js_truthy_def)

lemma local_check_JString [simp]:
  "local_check E r factorOk (JString s) = Inr (factorOk \<or> otp_hash r = hashToken E s)"
  by (simp add: local_check_def)

lemma latest_None: "latest xs = None \<longleftrightarrow> xs = []"
  by (induction xs) (auto split: option.splits)

lemma latest_in: "latest xs = Some r \<Longrightarrow> r \<in> set xs"
  by (induction xs arbitrary: r) (auto split: option.splits if_splits)

lemma latest_max: "latest xs = Some m \<Longrightarrow> y \<in> set xs \<Longrightarrow> created_at y \<le> created_at m"
proof (induction xs arbitrary: m)
  case Nil
  then show ?case by simp
next
  case (Cons a xs)
  show ?case
  proof (cases "latest xs")
    case None
    then have "xs = []" by (simp add: latest_None)
    with Cons.prems show ?thesis by simp
  next
    case (Some k)
    with Cons.prems Cons.IH [OF Some] show ?thesis
      by (auto split: if_splits)
  qed
qed

lemma latest_map:
  assumes "\<And>x. created_at (g x) = created_at x"
  shows "latest (map g xs) = map_option g (latest xs)"
  by (induction xs) (auto simp: assms split: option.splits)

lemma latest_filter_sub:
  assumes "latest (filter P xs) = Some r" and "Q r" and "\<And>x. Q x \<Longrightarrow> P x"
  shows "latest (filter Q xs) = Some r"
  using assms(1,2)
proof (induction xs arbitrary: r)
  case Nil
  then show ?case by simp
next
  case (Cons x xs)
  show ?case
  proof (cases "P x")
    case False
    then have "\<not> Q x" using assms(3) by blast
    with False Cons show ?thesis by simp
  next
    case True
    show ?thesis
    proof (cases "latest (filter P xs)")
      case None
      then have e: "filter P xs = []" by (simp add: latest_None)
      have "filter Q xs = []"
        using e assms(3) by (auto simp: filter_empty_conv)
      moreover from None True Cons.prems have "r = x" by simp
      ultimately show ?thesis using Cons.prems by simp
    next
      case (Some m)
      show ?thesis
      proof (cases "created_at x < created_at m")
        case lt: True
        with Some True Cons.prems have "r = m" by simp
        with Cons.IH [OF Some] Cons.prems have "latest (filter Q xs) = Some m" by simp
        with lt \<open>r = m\<close> show ?thesis by simp
      next
        case ge: False
        with Some True Cons.prems have rx: "r = x" by simp
        have "created_at y \<le> created_at x" if "y \<in> set (filter Q xs)" for y
        proof -
          from that have "y \<in> set (filter P xs)" using assms(3) by auto
          from latest_max [OF Some this] ge show ?thesis by simp
        qed
        then have "latest (filter Q xs) = Some m' \<Longrightarrow> \<not> created_at x < created_at m'" for m'
          using latest_in [of "filter Q xs" m'] by fastforce
        with rx Cons.prems show ?thesis by (simp split: option.splits)
      qed
    qed
  qed
qed

lemma otp_attempts_logAuthEvent [simp]:
  "otp_attempts (logAuthEvent ev ph sid ok err req now d) = otp_attempts d"
  "sellers (logAuthEvent ev ph sid ok err req now d) = sellers d"
  "auth_sessions (logAuthEvent ev ph sid ok err req now d) = auth_sessions d"
  "addresses (logAuthEvent ev ph sid ok err req now d) = addresses d"
  by (simp_all add: logAuthEvent_def)

lemma update_otp_fields [simp]:
  "otp_attempts (update_otp k f d) = map (\<lambda>r. if otp_id r = k then f r else r) (otp_attempts d)"
  "sellers (update_otp k f d) = sellers d"
  "auth_sessions (update_otp k f d) = auth_sessions d"
  "auth_logs (update_otp k f d) = auth_logs d"
  "addresses (update_otp k f d) = addresses d"
  by (simp_all add: update_otp_def)

lemma mostRecentUnexpired_in:
  "mostRecentUnexpired pn now d = Some r \<Longrightarrow>
     r \<in> set (otp_attempts d) \<and> phone_number r = pn \<and> now < expires_at r"
  unfolding mostRecentUnexpired_def by (drule latest_in) simp

lemma mostRecentUnexpired_later:
  assumes "mostRecentUnexpired pn now d = Some r" and "now \<le> now'" and "now' < expires_at r"
  shows "mostRecentUnexpired pn now' d = Some r"
proof -
  from assms(1) have p: "phone_number r = pn" by (simp add: mostRecentUnexpired_in)
  show ?thesis
    unfolding mostRecentUnexpired_def
    apply (rule latest_filter_sub [where P = "\<lambda>r. phone_number r = pn \<and> now < expires_at r"])
    using assms p by (auto simp: mostRecentUnexpired_def)
qed

lemma mostRecentUnexpired_map:
  assumes "\<And>x. created_at (g x) = created_at x" "\<And>x. phone_number (g x) = phone_number x"
    "\<And>x. expires_at (g x) = expires_at x" and "otp_attempts d' = map g (otp_attempts d)"
  shows "mostRecentUnexpired pn now d' = map_option g (mostRecentUnexpired pn now d)"
proof -
  have "filter (\<lambda>r. phone_number r = pn \<and> now < expires_at r) (map g xs)
        = map g (filter (\<lambda>r. phone_number r = pn \<and> now < expires_at r) xs)" for xs
    by (induction xs) (simp_all add: assms)
  then show ?thesis
    by (simp add: mostRecentUnexpired_def assms(4) latest_map [of g, OF assms(1)])
qed

text \<open>
  The failure counter for a code given as a string. A verify-otp call selects the most recent
  unexpired attempt of the phone number. When that row's failure counter is at least 3 the
  call is rejected with \<open>Too many failed attempts\<close> whatever the code, the right one included,
  before any verification: no provider call is made and no table but the audit log changes.
  When the counter is below 3 and both the provider-side check and the comparison of hashes
  fail, the call is rejected with \<open>Invalid OTP\<close> and the counter of that row goes up by
  exactly one: it is the only row that changes when ids are distinct, and the next calls
  before the expiry find it with the counter raised.
\<close>

lemma verify_otp_string_code_counter:
  assumes "pn \<noteq> []" and "code \<noteq> []" and "mostRecentUnexpired pn now d = Some r"
  shows "(3 \<le> attempts r \<longrightarrow>
            (\<exists>d'. verify_otp E req now pn (JString code) sd nid d
                     = (Resp 400 (ErrorBody ''Too many failed attempts''), d', [])
                 \<and> otp_attempts d' = otp_attempts d \<and> sellers d' = sellers d
                 \<and> auth_sessions d' = auth_sessions d))
       \<and> (attempts r < 3 \<longrightarrow> \<not> fst (provider_check E r (JString code)) \<longrightarrow> otp_hash r \<noteq> hashToken E code \<longrightarrow>
            (\<exists>d'. verify_otp E req now pn (JString code) sd nid d
                     = (Resp 400 (ErrorBody ''Invalid OTP''), d', snd (provider_check E r (JString code)))
                 \<and> otp_attempts d'
                     = map (\<lambda>x. if otp_id x = otp_id r then x\<lparr>attempts := attempts x + 1\<rparr> else x)
                         (otp_attempts d)
                 \<and> (distinct (map otp_id (otp_attempts d)) \<longrightarrow>
                      otp_attempts d'
                        = map (\<lambda>x. if x = r then r\<lparr>attempts := attempts r + 1\<rparr> else x) (otp_attempts d))
                 \<and> (\<forall>now'. now \<le> now' \<longrightarrow> now' < expires_at r \<longrightarrow>
                      mostRecentUnexpired pn now' d' = Some (r\<lparr>attempts := attempts r + 1\<rparr>))))"
proof (intro conjI impI)
  assume "3 \<le> attempts r"
  with assms show "\<exists>d'. verify_otp E req now pn (JString code) sd nid d
                     = (Resp 400 (ErrorBody ''Too many failed attempts''), d', [])
                 \<and> otp_attempts d' = otp_attempts d \<and> sellers d' = sellers d
                 \<and> auth_sessions d' = auth_sessions d"
    by (simp add: verify_otp_def)
next
  assume a: "attempts r < 3" "\<not> fst (provider_check E r (JString code))" "otp_hash r \<noteq> hashToken E code"
  let ?g = "\<lambda>x. if otp_id x = otp_id r then x\<lparr>attempts := attempts x + 1\<rparr> else x"
  let ?d' = "logAuthEvent ''otp_verify'' (Some pn) None False (Some ''Invalid OTP'') req now
               (update_otp (otp_id r) (\<lambda>r. r\<lparr>attempts := attempts r + 1\<rparr>) d)"
  have run: "verify_otp E req now pn (JString code) sd nid d
               = (Resp 400 (ErrorBody ''Invalid OTP''), ?d', snd (provider_check E r (JString code)))"
    using assms a by (simp add: verify_otp_def case_prod_beta)
  have rows: "otp_attempts ?d' = map ?g (otp_attempts d)"
    by simp
  have rin: "r \<in> set (otp_attempts d)"
    using assms(3) by (simp add: mostRecentUnexpired_in)
  have dist: "otp_attempts ?d' = map (\<lambda>x. if x = r then r\<lparr>attempts := attempts r + 1\<rparr> else x) (otp_attempts d)"
    if "distinct (map otp_id (otp_attempts d))"
  proof -
    have "x \<in> set (otp_attempts d) \<Longrightarrow> otp_id x = otp_id r \<longleftrightarrow> x = r" for x
      using that rin by (auto simp: distinct_map inj_on_def)
    then show ?thesis by (simp add: rows)
  qed
  have later: "mostRecentUnexpired pn now' ?d' = Some (r\<lparr>attempts := attempts r + 1\<rparr>)"
    if "now \<le> now'" "now' < expires_at r" for now'
  proof -
    have "mostRecentUnexpired pn now' ?d' = map_option ?g (mostRecentUnexpired pn now' d)"
      by (rule mostRecentUnexpired_map) (simp_all add: rows)
    also have "mostRecentUnexpired pn now' d = Some r"
      using assms(3) that by (rule mostRecentUnexpired_later)
    finally show ?thesis by simp
  qed
  show "\<exists>d'. verify_otp E req now pn (JString code) sd nid d
                     = (Resp 400 (ErrorBody ''Invalid OTP''), d', snd (provider_check E r (JString code)))
                 \<and> otp_attempts d'
                     = map (\<lambda>x. if otp_id x = otp_id r then x\<lparr>attempts := attempts x + 1\<rparr> else x)
                         (otp_attempts d)
                 \<and> (distinct (map otp_id (otp_attempts d)) \<longrightarrow>
                      otp_attempts d'
                        = map (\<lambda>x. if x = r then r\<lparr>attempts := attempts r + 1\<rparr> else x) (otp_attempts d))
                 \<and> (\<forall>now'. now \<le> now' \<longrightarrow> now' < expires_at r \<longrightarrow>
                      mostRecentUnexpired pn now' d' = Some (r\<lparr>attempts := attempts r + 1\<rparr>))"
    using run rows dist later by (intro exI [of _ ?d']) blast
qed

lemma demo_latest: "mostRecentUnexpired ''9999999999'' 1001 demo_db = Some demo_attempt"
  by (simp add: mostRecentUnexpired_def demo_db_def demo_attempt_def empty_db_def)

lemma demo_provider0: "provider_check demo_env demo_attempt code = (False, [])"
  by (simp add: provider_check_def demo_attempt_def truthy_def)

lemma sent_latest:
  "mostRecentUnexpired ''9999999999'' 1001 (demo_db\<lparr>otp_attempts := [sent_attempt]\<rparr>)
     = Some sent_attempt"
  by (simp add: mostRecentUnexpired_def sent_attempt_def demo_attempt_def)

lemma sent_provider:
  "provider_check rejecting_env sent_attempt code
     = (False, if code = JUnprintable then []
               else [''https://2factor.in/API/V1/key/SMS/VERIFY/sess-1/''
                       @ (case code of JString s \<Rightarrow> s | JOther b t \<Rightarrow> t | JUnprintable \<Rightarrow> [])])"
  by (cases code)
    (simp_all add: provider_check_def sent_attempt_def demo_attempt_def truthy_def str_or_def
      verify2FactorOTP_def verify2FactorOTP_catch_def template_text_def await_get_def
      rejecting_env_def demo_env_def
      TWOFACTOR_BASE_URL_def sms_failed_def details_or_def Let_def)

text \<open>
  C5. Each verify-otp call that fails verification should raise the failure counter of the
  selected attempt by one, so that the fourth call is rejected before verification. The code
  raises it for a code given as a string only. For a code that is not a string but truthy
  (a JSON number, say) the handler hands the text of the code to the provider when the
  attempt was sent through it, and when the provider does not accept it, hashes the code,
  which throws: the \<^verbatim>\<open>catch\<close> block answers 500 \<open>Failed to verify OTP\<close>, the table of attempts
  is as before, and until the expiry every later call finds the same attempt with the same
  counter, so such calls can be repeated without end.
\<close>

theorem verify_otp_number_code_keeps_counter:
  assumes "pn \<noteq> []" and "mostRecentUnexpired pn now d = Some r" and "attempts r < 3"
    and "\<not> fst (provider_check E r (JOther True t))"
  shows "\<exists>d'. verify_otp E req now pn (JOther True t) sd nid d
                 = (Resp 500 (ErrorBody ''Failed to verify OTP''), d',
                    snd (provider_check E r (JOther True t)))
             \<and> otp_attempts d' = otp_attempts d
             \<and> (\<forall>now'. now \<le> now' \<longrightarrow> now' < expires_at r \<longrightarrow>
                   mostRecentUnexpired pn now' d' = Some r)"
proof -
  let ?d' = "logAuthEvent ''otp_verify'' (Some pn) None False
               (Some ''The data argument must be of type string or an instance of Buffer'') req now d"
  have run: "verify_otp E req now pn (JOther True t) sd nid d
               = (Resp 500 (ErrorBody ''Failed to verify OTP''), ?d',
                  snd (provider_check E r (JOther True t)))"
    using assms
    by (simp add: verify_otp_def template_text_def js_truthy_def local_check_def error_text_def
        case_prod_beta)
  have rows: "otp_attempts ?d' = otp_attempts d"
    by simp
  have later: "mostRecentUnexpired pn now' ?d' = Some r" if "now \<le> now'" "now' < expires_at r" for now'
  proof -
    have "mostRecentUnexpired pn now' ?d' = mostRecentUnexpired pn now' d"
      by (simp add: mostRecentUnexpired_def)
    also have "\<dots> = Some r"
      using assms(2) that by (rule mostRecentUnexpired_later)
    finally show ?thesis .
  qed
  show ?thesis
    using run rows later by (intro exI [of _ ?d']) simp
qed

theorem verify_otp_number_code_keeps_counter_witness:
  "mostRecentUnexpired ''9999999999'' 1001 (demo_db\<lparr>otp_attempts := [sent_attempt]\<rparr>)
     = Some sent_attempt \<and>
   attempts sent_attempt = 0 \<and>
   fst (verify_otp rejecting_env demo_req 1001 ''9999999999'' (JOther True ''1235'') None ''S2''
          (demo_db\<lparr>otp_attempts := [sent_attempt]\<rparr>))
     = Resp 500 (ErrorBody ''Failed to verify OTP'') \<and>
   snd (snd (verify_otp rejecting_env demo_req 1001 ''9999999999'' (JOther True ''1235'') None ''S2''
          (demo_db\<lparr>otp_attempts := [sent_attempt]\<rparr>)))
     = [''https://2factor.in/API/V1/key/SMS/VERIFY/sess-1/1235''] \<and>
   otp_attempts (fst (snd (verify_otp rejecting_env demo_req 1001 ''9999999999'' (JOther True ''1235'')
          None ''S2'' (demo_db\<lparr>otp_attempts := [sent_attempt]\<rparr>))))
     = [sent_attempt] \<and>
   mostRecentUnexpired ''9999999999'' 1002
       (fst (snd (verify_otp rejecting_env demo_req 1001 ''9999999999'' (JOther True ''1235'')
          None ''S2'' (demo_db\<lparr>otp_attempts := [sent_attempt]\<rparr>))))
     = Some sent_attempt \<and>
   fst (verify_otp rejecting_env demo_req 1001 ''9999999999'' (JString ''1235'') None ''S2''
          (demo_db\<lparr>otp_attempts := [sent_attempt]\<rparr>))
     = Resp 400 (ErrorBody ''Invalid OTP'') \<and>
   otp_attempts (fst (snd (verify_otp rejecting_env demo_req 1001 ''9999999999'' (JString ''1235'')
          None ''S2'' (demo_db\<lparr>otp_attempts := [sent_attempt]\<rparr>))))
     = [sent_attempt\<lparr>attempts := 1\<rparr>]"
proof -
  let ?d = "demo_db\<lparr>otp_attempts := [sent_attempt]\<rparr>"
  let ?u = "''https://2factor.in/API/V1/key/SMS/VERIFY/sess-1/1235''"
  have pn: "''9999999999'' \<noteq> []" and c: "''1235'' \<noteq> []"
    by simp_all
  have a: "attempts sent_attempt < 3" and a0: "attempts sent_attempt = 0"
    and i: "otp_id sent_attempt = 1" and x: "(1002::nat) < expires_at sent_attempt"
    by (simp_all add: sent_attempt_def demo_attempt_def)
  have p: "provider_check rejecting_env sent_attempt (JOther True ''1235'') = (False, [?u])"
    and p': "provider_check rejecting_env sent_attempt (JString ''1235'') = (False, [?u])"
    by (simp_all add: sent_provider)
  have h: "otp_hash sent_attempt \<noteq> hashToken rejecting_env ''1235''"
    by (simp add: sent_attempt_def demo_attempt_def hashToken_def rejecting_env_def demo_env_def)
  have n: "\<not> fst (provider_check rejecting_env sent_attempt (JOther True ''1235''))"
    and n': "\<not> fst (provider_check rejecting_env sent_attempt (JString ''1235''))"
    by (simp_all only: p p' fst_conv not_False_eq_True)
  have t: "(1001::nat) \<le> 1002"
    by simp
  from verify_otp_number_code_keeps_counter [OF pn sent_latest a n, of demo_req None "''S2''"]
  obtain d1 where
    1: "verify_otp rejecting_env demo_req 1001 ''9999999999'' (JOther True ''1235'') None ''S2'' ?d
          = (Resp 500 (ErrorBody ''Failed to verify OTP''), d1,
             snd (provider_check rejecting_env sent_attempt (JOther True ''1235'')))"
    and 2: "otp_attempts d1 = otp_attempts ?d"
    and 7: "\<forall>now'. 1001 \<le> now' \<longrightarrow> now' < expires_at sent_attempt \<longrightarrow>
              mostRecentUnexpired ''9999999999'' now' d1 = Some sent_attempt"
    by (elim exE conjE) (rule that)
  from verify_otp_string_code_counter [OF pn c sent_latest, of rejecting_env demo_req None "''S2''",
      THEN conjunct2, rule_format, OF a n' h]
  obtain d2 where
    3: "verify_otp rejecting_env demo_req 1001 ''9999999999'' (JString ''1235'') None ''S2'' ?d
          = (Resp 400 (ErrorBody ''Invalid OTP''), d2,
             snd (provider_check rejecting_env sent_attempt (JString ''1235'')))"
    and 4: "otp_attempts d2
          = map (\<lambda>x. if otp_id x = otp_id sent_attempt then x\<lparr>attempts := attempts x + 1\<rparr> else x)
              (otp_attempts ?d)"
    by (elim exE conjE) (rule that)
  from 2 have 5: "otp_attempts d1 = [sent_attempt]"
    by simp
  from 4 have 6: "otp_attempts d2 = [sent_attempt\<lparr>attempts := 1\<rparr>]"
    by (simp add: a0)
  note 8 = 7 [rule_format, OF t x]
  show ?thesis
    unfolding 1 3 p using sent_latest a0 5 6 8 by (simp only: fst_conv snd_conv simp_thms)
qed

text \<open>
  C10. When the selected attempt is flagged as a signup, its counter is below 3 and the code
  passes verification, but the signup data lack the owner name or the restaurant name, the
  request is rejected with the validation error, and the attempt row has by then been
  written: its \<open>verified_at\<close> is the time of the call and its status names the method that
  verified. No seller, address or session is created and no audit row is written.
\<close>

theorem verify_otp_signup_fields_missing:
  assumes "pn \<noteq> []" and "code \<noteq> []" and "mostRecentUnexpired pn now d = Some r"
    and "attempts r < 3" and "is_signup r"
    and "fst (provider_check E r (JString code)) \<or> otp_hash r = hashToken E code"
    and "sd = None \<or> (\<exists>x. sd = Some x \<and> (\<not> truthy (ownerName x) \<or> \<not> truthy (restaurantName x)))"
  shows "\<exists>d' r'. verify_otp E req now pn (JString code) sd nid d
                = (Resp 400 (ErrorBody ''Owner name and restaurant name required for signup''), d',
                   snd (provider_check E r (JString code)))
           \<and> r' = r\<lparr>verified_at := Some now,
                      sms_status := ''verified_'' @ (if fst (provider_check E r (JString code)) then ''2factor'' else ''local'')\<rparr>
           \<and> otp_attempts d'
               = map (\<lambda>x. if otp_id x = otp_id r
                           then x\<lparr>verified_at := Some now,
                                  sms_status := ''verified_'' @ (if fst (provider_check E r (JString code)) then ''2factor'' else ''local'')\<rparr>
                           else x) (otp_attempts d)
           \<and> r' \<in> set (otp_attempts d')
           \<and> mostRecentUnexpired pn now d' = Some r'
           \<and> sellers d' = sellers d \<and> addresses d' = addresses d
           \<and> auth_sessions d' = auth_sessions d \<and> auth_logs d' = auth_logs d"
proof -
  let ?m = "''verified_'' @ (if fst (provider_check E r (JString code)) then ''2factor'' else ''local'')"
  let ?f = "\<lambda>x. x\<lparr>verified_at := Some now, sms_status := ?m\<rparr>"
  let ?g = "\<lambda>x. if otp_id x = otp_id r then ?f x else x"
  let ?d' = "update_otp (otp_id r) ?f d"
  have run: "verify_otp E req now pn (JString code) sd nid d
               = (Resp 400 (ErrorBody ''Owner name and restaurant name required for signup''), ?d',
                  snd (provider_check E r (JString code)))"
    using assms by (auto simp: verify_otp_def case_prod_beta Let_def)
  have rows: "otp_attempts ?d' = map ?g (otp_attempts d)"
    by simp
  have sel: "mostRecentUnexpired pn now ?d' = map_option ?g (mostRecentUnexpired pn now d)"
    by (rule mostRecentUnexpired_map) (simp_all add: rows)
  then have sel': "mostRecentUnexpired pn now ?d' = Some (?f r)"
    by (simp add: assms(3))
  then have mem: "?f r \<in> set (otp_attempts ?d')"
    by (simp only: mostRecentUnexpired_in)
  show ?thesis
    using run rows sel' mem by (intro exI [of _ ?d'] exI [of _ "?f r"]) simp
qed

lemma demo_signup_latest:
  "mostRecentUnexpired ''9999999999'' 1001 (empty_db\<lparr>otp_attempts := [demo_attempt\<lparr>is_signup := True\<rparr>]\<rparr>)
     = Some (demo_attempt\<lparr>is_signup := True\<rparr>)"
  by (simp add: mostRecentUnexpired_def demo_attempt_def)

theorem verify_otp_signup_fields_missing_witness:
  "mostRecentUnexpired ''9999999999'' 1001 (empty_db\<lparr>otp_attempts := [demo_attempt\<lparr>is_signup := True\<rparr>]\<rparr>)
     = Some (demo_attempt\<lparr>is_signup := True\<rparr>) \<and>
   attempts (demo_attempt\<lparr>is_signup := True\<rparr>) < 3 \<and>
   is_signup (demo_attempt\<lparr>is_signup := True\<rparr>) \<and>
   otp_hash (demo_attempt\<lparr>is_signup := True\<rparr>) = hashToken demo_env ''1234'' \<and>
   \<not> truthy (restaurantName \<lparr>ownerName = Some ''Asha'', restaurantName = None\<rparr>) \<and>
   fst (verify_otp demo_env demo_req 1001 ''9999999999'' (JString ''1234'')
          (Some \<lparr>ownerName = Some ''Asha'', restaurantName = None\<rparr>) ''S2''
          (empty_db\<lparr>otp_attempts := [demo_attempt\<lparr>is_signup := True\<rparr>]\<rparr>))
     = Resp 400 (ErrorBody ''Owner name and restaurant name required for signup'') \<and>
   otp_attempts (fst (snd (verify_otp demo_env demo_req 1001 ''9999999999'' (JString ''1234'')
          (Some \<lparr>ownerName = Some ''Asha'', restaurantName = None\<rparr>) ''S2''
          (empty_db\<lparr>otp_attempts := [demo_attempt\<lparr>is_signup := True\<rparr>]\<rparr>))))
     = [demo_attempt\<lparr>is_signup := True, verified_at := Some 1001, sms_status := ''verified_local''\<rparr>] \<and>
   sellers (fst (snd (verify_otp demo_env demo_req 1001 ''9999999999'' (JString ''1234'')
          (Some \<lparr>ownerName = Some ''Asha'', restaurantName = None\<rparr>) ''S2''
          (empty_db\<lparr>otp_attempts := [demo_attempt\<lparr>is_signup := True\<rparr>]\<rparr>)))) = []"
proof -
  let ?r = "demo_attempt\<lparr>is_signup := True\<rparr>"
  let ?d = "empty_db\<lparr>otp_attempts := [?r]\<rparr>"
  let ?sd = "Some \<lparr>ownerName = Some ''Asha'', restaurantName = None\<rparr>"
  have pn: "''9999999999'' \<noteq> []" and c: "''1234'' \<noteq> []"
    by simp_all
  have a: "attempts ?r < 3" and s: "is_signup ?r"
    by (simp_all add: demo_attempt_def)
  have h: "otp_hash ?r = hashToken demo_env ''1234''"
    by (simp add: demo_attempt_def hashToken_def demo_env_def)
  then have v: "fst (provider_check demo_env ?r (JString ''1234'')) \<or> otp_hash ?r = hashToken demo_env ''1234''"
    by simp
  have t: "\<not> truthy (restaurantName \<lparr>ownerName = Some ''Asha'', restaurantName = None\<rparr>)"
    by (simp add: truthy_def)
  then have m: "?sd = None \<or> (\<exists>x. ?sd = Some x \<and> (\<not> truthy (ownerName x) \<or> \<not> truthy (restaurantName x)))"
    by simp
  have p: "fst (provider_check demo_env ?r (JString ''1234'')) = False"
    by (simp add: provider_check_def demo_attempt_def truthy_def)
  from verify_otp_signup_fields_missing [OF pn c demo_signup_latest a s v m, of demo_req "''S2''"]
  obtain d' where
    1: "verify_otp demo_env demo_req 1001 ''9999999999'' (JString ''1234'') ?sd ''S2'' ?d
          = (Resp 400 (ErrorBody ''Owner name and restaurant name required for signup''), d',
             snd (provider_check demo_env ?r (JString ''1234'')))"
    and 2: "otp_attempts d'
          = map (\<lambda>x. if otp_id x = otp_id ?r
                      then x\<lparr>verified_at := Some 1001,
                             sms_status := ''verified_'' @ (if fst (provider_check demo_env ?r (JString ''1234'')) then ''2factor'' else ''local'')\<rparr>
                      else x) (otp_attempts ?d)"
    and 3: "sellers d' = sellers ?d"
    by blast
  from 2 have 4: "otp_attempts d' = [?r\<lparr>verified_at := Some 1001, sms_status := ''verified_local''\<rparr>]"
    by (simp add: p)
  from 3 have 5: "sellers d' = []"
    by (simp add: empty_db_def)
  show ?thesis
    using demo_signup_latest a s h t 4 5 by (simp add: 1)
qed

lemma first_row_filter_map:
  assumes "\<And>x. P (g x) = P x"
  shows "first_row (filter P (map g xs)) = map_option g (first_row (filter P xs))"
  by (induction xs) (simp_all add: first_row_def assms)

lemma sellers_by_phone_update_otp [simp]:
  "sellers_by_phone pn (update_otp k f d) = sellers_by_phone pn d"
  by (simp add: sellers_by_phone_def)

lemma verify_otp_login:
  assumes "pn \<noteq> []" and "code \<noteq> []" and "mostRecentUnexpired pn now d = Some r"
    and "attempts r < 3" and "fst (provider_check E r (JString code)) \<or> otp_hash r = hashToken E code"
    and "\<not> is_signup r" and "first_row (sellers_by_phone pn d) = Some s"
  shows "\<exists>d' session.
           verify_otp E req now pn (JString code) sd nid d
             = (Resp 200 (VerifyBody ''Login successful'' False
                            (jwt_sign E (access_claims s (Some pn)) now (15 * 60))
                            (jwt_sign E (refresh_claims s (Some pn)) now (7 * 24 * 60 * 60))
                            900 (user_of s (Some pn))),
                d', snd (provider_check E r (JString code)))
         \<and> otp_attempts d'
             = map (\<lambda>x. if otp_id x = otp_id r
                         then x\<lparr>verified_at := Some now,
                                sms_status := ''verified_'' @ (if fst (provider_check E r (JString code)) then ''2factor'' else ''local'')\<rparr>
                         else x) (otp_attempts d)
         \<and> sellers d'
             = map (\<lambda>t. if seller_id t = seller_id s
                         then t\<lparr>last_login := Some now, phone_verified := True\<rparr> else t) (sellers d)
         \<and> auth_sessions d' = auth_sessions d @ [session]
         \<and> sess_seller_id session = seller_id s
         \<and> refresh_token_hash session
             = hashToken E (jwt_sign E (refresh_claims s (Some pn)) now (7 * 24 * 60 * 60))"
  using assms
  by (auto simp: verify_otp_def issue_tokens_def insert_auth_session_def logAuthEvent_def
      update_login_def case_prod_beta Let_def)


text \<open>
  C1, as the code has it. The lookup of verify-otp selects on phone number and expiry only;
  a row that has been verified stays eligible. So when a login attempt (counter below 3) is
  verified with the right code, the call succeeds and marks the row; a second call with the
  same code at any later time before the row's expiry succeeds again and stores one more
  session. The rejection \<open>No valid OTP found or OTP expired\<close> comes only when no unexpired
  attempt is left for the phone number.
\<close>

theorem verify_otp_repeat:
  assumes "pn \<noteq> []" and "code \<noteq> []" and "mostRecentUnexpired pn now d = Some r"
    and "attempts r < 3" and "otp_hash r = hashToken E code"
    and "\<not> is_signup r" and "first_row (sellers_by_phone pn d) = Some s"
    and "verify_otp E req now pn (JString code) sd nid d = (resp, d1, calls)"
    and "now \<le> now2"
  shows "(\<exists>accessToken refreshToken.
            resp = Resp 200 (VerifyBody ''Login successful'' False accessToken refreshToken 900
                               (user_of s (Some pn))))
       \<and> (\<exists>r'. r' \<in> set (otp_attempts d1) \<and> otp_id r' = otp_id r \<and> verified_at r' = Some now)
       \<and> (now2 < expires_at r \<longrightarrow>
            (\<exists>accessToken refreshToken d2 calls2.
               verify_otp E req2 now2 pn (JString code) sd2 nid2 d1
                 = (Resp 200 (VerifyBody ''Login successful'' False accessToken refreshToken 900
                                (user_of s (Some pn))), d2, calls2)
               \<and> length (auth_sessions d2) = length (auth_sessions d) + 2))
       \<and> (filter (\<lambda>x. phone_number x = pn \<and> now2 < expires_at x) (otp_attempts d) = [] \<longrightarrow>
            fst (verify_otp E req2 now2 pn (JString code) sd2 nid2 d1)
              = Resp 400 (ErrorBody ''No valid OTP found or OTP expired''))"
proof -
  let ?m = "''verified_'' @ (if fst (provider_check E r (JString code)) then ''2factor'' else ''local'')"
  let ?g = "\<lambda>x. if otp_id x = otp_id r then x\<lparr>verified_at := Some now, sms_status := ?m\<rparr> else x"
  let ?u = "\<lambda>t. if seller_id t = seller_id s
                then t\<lparr>last_login := Some now, phone_verified := True\<rparr> else t"
  have ok: "fst (provider_check E r (JString code)) \<or> otp_hash r = hashToken E code"
    using assms(5) by simp
  from verify_otp_login [OF assms(1-4) ok assms(6,7), of req sd nid] assms(8)
  obtain session where
    resp: "resp = Resp 200 (VerifyBody ''Login successful'' False
                            (jwt_sign E (access_claims s (Some pn)) now (15 * 60))
                            (jwt_sign E (refresh_claims s (Some pn)) now (7 * 24 * 60 * 60))
                            900 (user_of s (Some pn)))"
    and rows: "otp_attempts d1 = map ?g (otp_attempts d)"
    and sel: "sellers d1 = map ?u (sellers d)"
    and ses: "auth_sessions d1 = auth_sessions d @ [session]"
    by auto
  have first: "\<exists>accessToken refreshToken.
            resp = Resp 200 (VerifyBody ''Login successful'' False accessToken refreshToken 900
                               (user_of s (Some pn)))"
    using resp by blast
  have rin: "r \<in> set (otp_attempts d)"
    using assms(3) by (simp add: mostRecentUnexpired_in)
  then have "?g r \<in> ?g ` set (otp_attempts d)"
    by (rule imageI)
  then have "?g r \<in> set (otp_attempts d1)"
    by (simp only: rows set_map)
  then have marked: "\<exists>r'. r' \<in> set (otp_attempts d1) \<and> otp_id r' = otp_id r \<and> verified_at r' = Some now"
    by (intro exI [of _ "?g r"]) simp
  have again: "\<exists>accessToken refreshToken d2 calls2.
               verify_otp E req2 now2 pn (JString code) sd2 nid2 d1
                 = (Resp 200 (VerifyBody ''Login successful'' False accessToken refreshToken 900
                                (user_of s (Some pn))), d2, calls2)
               \<and> length (auth_sessions d2) = length (auth_sessions d) + 2"
    if live: "now2 < expires_at r"
  proof -
    have "mostRecentUnexpired pn now2 d1 = map_option ?g (mostRecentUnexpired pn now2 d)"
      by (rule mostRecentUnexpired_map) (simp_all add: rows)
    also have "mostRecentUnexpired pn now2 d = Some r"
      using assms(3,9) live by (rule mostRecentUnexpired_later)
    finally have l2: "mostRecentUnexpired pn now2 d1 = Some (?g r)"
      by simp
    have a2: "attempts (?g r) < 3" and s2: "\<not> is_signup (?g r)"
      using assms(4,6) by simp_all
    have h2: "fst (provider_check E (?g r) (JString code)) \<or> otp_hash (?g r) = hashToken E code"
      using assms(5) by simp
    have "sellers_by_phone pn d1 = filter (\<lambda>t. rest_phone t = Some pn) (map ?u (sellers d))"
      by (simp add: sellers_by_phone_def sel)
    then have "first_row (sellers_by_phone pn d1) = map_option ?u (first_row (sellers_by_phone pn d))"
      by (simp add: first_row_filter_map sellers_by_phone_def)
    then have f2: "first_row (sellers_by_phone pn d1) = Some (?u s)"
      by (simp add: assms(7))
    have u: "user_of (?u s) (Some pn) = user_of s (Some pn)"
      by (simp add: user_of_def)
    from verify_otp_login [OF assms(1,2) l2 a2 h2 s2 f2, of req2 sd2 nid2]
    show ?thesis
      unfolding u by (auto simp: ses)
  qed
  have gone: "fst (verify_otp E req2 now2 pn (JString code) sd2 nid2 d1)
              = Resp 400 (ErrorBody ''No valid OTP found or OTP expired'')"
    if none: "filter (\<lambda>x. phone_number x = pn \<and> now2 < expires_at x) (otp_attempts d) = []"
  proof -
    have "mostRecentUnexpired pn now2 d1 = map_option ?g (mostRecentUnexpired pn now2 d)"
      by (rule mostRecentUnexpired_map) (simp_all add: rows)
    also have "mostRecentUnexpired pn now2 d = None"
      by (simp add: mostRecentUnexpired_def none)
    finally show ?thesis
      using assms(1,2) by (simp add: verify_otp_def)
  qed
  show ?thesis
    using first marked again gone by blast
qed


lemma demo_first_seller: "first_row (sellers_by_phone ''9999999999'' demo_db) = Some demo_seller"
  by (simp add: first_row_def sellers_by_phone_def demo_db_def empty_db_def demo_seller_def)

lemma demo_hash: "otp_hash demo_attempt = hashToken demo_env ''1234''"
  by (simp add: demo_attempt_def hashToken_def demo_env_def)

lemma demo_first_login:
  "\<exists>d'.
     verify_otp demo_env demo_req 1001 ''9999999999'' (JString ''1234'') None ''S2'' demo_db
       = (Resp 200 (VerifyBody ''Login successful'' False ''A'' ''R'' 900
                      (user_of demo_seller (Some ''9999999999''))), d', [])
     \<and> otp_attempts d' = [demo_attempt\<lparr>verified_at := Some 1001, sms_status := ''verified_local''\<rparr>]
     \<and> sellers d' = [demo_seller\<lparr>last_login := Some 1001, phone_verified := True\<rparr>]"
proof -
  have pn: "''9999999999'' \<noteq> []" and c: "''1234'' \<noteq> []"
    by simp_all
  have a: "attempts demo_attempt < 3" and s: "\<not> is_signup demo_attempt"
    by (simp_all add: demo_attempt_def)
  have ok: "fst (provider_check demo_env demo_attempt (JString ''1234'')) \<or> otp_hash demo_attempt = hashToken demo_env ''1234''"
    using demo_hash by simp
  have j: "jwt_sign demo_env (access_claims x p) n t = ''A''" "jwt_sign demo_env (refresh_claims x p) n t = ''R''"
    for x p n t
    by (simp_all add: demo_env_def access_claims_def refresh_claims_def)
  from verify_otp_login [OF pn c demo_latest a ok s demo_first_seller, of demo_req None "''S2''"]
  show ?thesis
    by (auto simp: j demo_provider0 demo_db_def empty_db_def)
qed


text \<open>
  The claim as stated fails: on the concrete datastore the second call with the same code,
  one second after the first, is a successful login again.
\<close>

theorem verify_otp_twice_counterexample:
  "mostRecentUnexpired ''9999999999'' 1001 demo_db = Some demo_attempt \<and>
   otp_hash demo_attempt = hashToken demo_env ''1234'' \<and>
   fst (verify_otp demo_env demo_req 1001 ''9999999999'' (JString ''1234'') None ''S2'' demo_db)
     = Resp 200 (VerifyBody ''Login successful'' False ''A'' ''R'' 900
                   (user_of demo_seller (Some ''9999999999''))) \<and>
   fst (verify_otp demo_env demo_req 1002 ''9999999999'' (JString ''1234'') None ''S2''
          (fst (snd (verify_otp demo_env demo_req 1001 ''9999999999'' (JString ''1234'') None ''S2'' demo_db))))
     = Resp 200 (VerifyBody ''Login successful'' False ''A'' ''R'' 900
                   (user_of demo_seller (Some ''9999999999''))) \<and>
   fst (verify_otp demo_env demo_req 1002 ''9999999999'' (JString ''1234'') None ''S2''
          (fst (snd (verify_otp demo_env demo_req 1001 ''9999999999'' (JString ''1234'') None ''S2'' demo_db))))
     \<noteq> Resp 400 (ErrorBody ''No valid OTP found or OTP expired'')"
proof -
  let ?r = "demo_attempt\<lparr>verified_at := Some 1001, sms_status := ''verified_local''\<rparr>"
  let ?s = "demo_seller\<lparr>last_login := Some 1001, phone_verified := True\<rparr>"
  let ?ok = "Resp 200 (VerifyBody ''Login successful'' False ''A'' ''R'' 900
                      (user_of demo_seller (Some ''9999999999'')))"
  from demo_first_login obtain d' where
    1: "verify_otp demo_env demo_req 1001 ''9999999999'' (JString ''1234'') None ''S2'' demo_db = (?ok, d', [])"
    and rows: "otp_attempts d' = [?r]" and sel: "sellers d' = [?s]"
    by (elim exE conjE) (rule that)
  have pn: "''9999999999'' \<noteq> []" and c: "''1234'' \<noteq> []"
    by simp_all
  have l: "mostRecentUnexpired ''9999999999'' 1002 d' = Some ?r"
    by (simp add: mostRecentUnexpired_def rows demo_attempt_def)
  have a: "attempts ?r < 3" and s: "\<not> is_signup ?r"
    by (simp_all add: demo_attempt_def)
  have ok: "fst (provider_check demo_env ?r (JString ''1234'')) \<or> otp_hash ?r = hashToken demo_env ''1234''"
    using demo_hash by simp
  have f: "first_row (sellers_by_phone ''9999999999'' d') = Some ?s"
    by (simp add: first_row_def sellers_by_phone_def sel demo_seller_def)
  have j: "jwt_sign demo_env (access_claims x p) n t = ''A''" "jwt_sign demo_env (refresh_claims x p) n t = ''R''"
    for x p n t
    by (simp_all add: demo_env_def access_claims_def refresh_claims_def)
  have u: "user_of ?s p = user_of demo_seller p" for p
    by (simp add: user_of_def)
  from verify_otp_login [OF pn c l a ok s f, of demo_req None "''S2''"]
  obtain d2 calls2 where
    "verify_otp demo_env demo_req 1002 ''9999999999'' (JString ''1234'') None ''S2'' d'
       = (Resp 200 (VerifyBody ''Login successful'' False
                      (jwt_sign demo_env (access_claims ?s (Some ''9999999999'')) 1002 (15 * 60))
                      (jwt_sign demo_env (refresh_claims ?s (Some ''9999999999'')) 1002 (7 * 24 * 60 * 60))
                      900 (user_of ?s (Some ''9999999999''))), d2, calls2)"
    by (elim exE conjE) (rule that)
  then have 2: "fst (verify_otp demo_env demo_req 1002 ''9999999999'' (JString ''1234'') None ''S2'' d') = ?ok"
    by (simp only: j u fst_conv)
  have 3: "fst (snd (verify_otp demo_env demo_req 1001 ''9999999999'' (JString ''1234'') None ''S2'' demo_db)) = d'"
    and 4: "fst (verify_otp demo_env demo_req 1001 ''9999999999'' (JString ''1234'') None ''S2'' demo_db) = ?ok"
    by (simp_all only: 1 fst_conv snd_conv)
  have 5: "?ok \<noteq> Resp 400 (ErrorBody ''No valid OTP found or OTP expired'')"
    by simp
  show ?thesis
    unfolding 3 4 2 using demo_latest demo_hash 5 by (intro conjI refl)
qed


theorem verify_otp_repeat_witness:
  "mostRecentUnexpired ''9999999999'' 1001 demo_db = Some demo_attempt \<and>
   attempts demo_attempt < 3 \<and>
   otp_hash demo_attempt = hashToken demo_env ''1234'' \<and>
   \<not> is_signup demo_attempt \<and>
   first_row (sellers_by_phone ''9999999999'' demo_db) = Some demo_seller \<and>
   (1200::nat) < expires_at demo_attempt \<and>
   filter (\<lambda>x. phone_number x = ''9999999999'' \<and> 1300 < expires_at x) (otp_attempts demo_db) = [] \<and>
   (\<exists>accessToken refreshToken.
      fst (verify_otp demo_env demo_req 1200 ''9999999999'' (JString ''1234'') None ''S3''
             (fst (snd (verify_otp demo_env demo_req 1001 ''9999999999'' (JString ''1234'') None ''S2'' demo_db))))
        = Resp 200 (VerifyBody ''Login successful'' False accessToken refreshToken 900
                      (user_of demo_seller (Some ''9999999999'')))) \<and>
   fst (verify_otp demo_env demo_req 1300 ''9999999999'' (JString ''1234'') None ''S3''
          (fst (snd (verify_otp demo_env demo_req 1001 ''9999999999'' (JString ''1234'') None ''S2'' demo_db))))
     = Resp 400 (ErrorBody ''No valid OTP found or OTP expired'')"
proof -
  obtain resp d1 calls where
    run: "verify_otp demo_env demo_req 1001 ''9999999999'' (JString ''1234'') None ''S2'' demo_db = (resp, d1, calls)"
    by (rule prod_cases3)
  have pn: "''9999999999'' \<noteq> []" and c: "''1234'' \<noteq> []"
    by simp_all
  have a: "attempts demo_attempt < 3" and s: "\<not> is_signup demo_attempt"
    and e: "(1200::nat) < expires_at demo_attempt"
    by (simp_all add: demo_attempt_def)
  have n: "filter (\<lambda>x. phone_number x = ''9999999999'' \<and> 1300 < expires_at x) (otp_attempts demo_db) = []"
    by (simp add: demo_db_def empty_db_def demo_attempt_def)
  have t1: "(1001::nat) \<le> 1200" and t2: "(1001::nat) \<le> 1300"
    by simp_all
  note w1 = verify_otp_repeat [OF pn c demo_latest a demo_hash s demo_first_seller run t1,
      of demo_req None "''S3''"]
  note w2 = verify_otp_repeat [OF pn c demo_latest a demo_hash s demo_first_seller run t2,
      of demo_req None "''S3''"]
  from w1 [THEN conjunct2, THEN conjunct2, THEN conjunct1, rule_format, OF e]
  obtain accessToken refreshToken d2 calls2 where
    "verify_otp demo_env demo_req 1200 ''9999999999'' (JString ''1234'') None ''S3'' d1
       = (Resp 200 (VerifyBody ''Login successful'' False accessToken refreshToken 900
                      (user_of demo_seller (Some ''9999999999''))), d2, calls2)"
    by (elim exE conjE) (rule that)
  then have "fst (verify_otp demo_env demo_req 1200 ''9999999999'' (JString ''1234'') None ''S3'' d1)
        = Resp 200 (VerifyBody ''Login successful'' False accessToken refreshToken 900
                      (user_of demo_seller (Some ''9999999999'')))"
    by (simp only: fst_conv)
  then have 1: "\<exists>accessToken refreshToken.
      fst (verify_otp demo_env demo_req 1200 ''9999999999'' (JString ''1234'') None ''S3'' d1)
        = Resp 200 (VerifyBody ''Login successful'' False accessToken refreshToken 900
                      (user_of demo_seller (Some ''9999999999'')))"
    by (intro exI)
  note 2 = w2 [THEN conjunct2, THEN conjunct2, THEN conjunct2, rule_format, OF n]
  have 3: "fst (snd (verify_otp demo_env demo_req 1001 ''9999999999'' (JString ''1234'') None ''S2'' demo_db)) = d1"
    by (simp only: run fst_conv snd_conv)
  show ?thesis
    unfolding 3 using demo_latest a demo_hash s demo_first_seller e n 1 2 by (intro conjI)
qed

section \<open>Properties of send-otp\<close>


lemma recentAttempts_logAuthEvent [simp]:
  "recentAttempts pn now (logAuthEvent ev ph sid ok err req t d) = recentAttempts pn now d"
  by (simp add: recentAttempts_def)







section \<open>Properties of refresh and of the bearer handlers\<close>

lemma first_row_filter_Some:
  "first_row (filter P xs) = Some x \<Longrightarrow> x \<in> set xs \<and> P x"
proof -
  assume "first_row (filter P xs) = Some x"
  then have "x \<in> set (filter P xs)"
    by (cases "filter P xs") (simp_all add: first_row_def)
  then show ?thesis by simp
qed

lemma first_row_filter_nonempty:
  "x \<in> set xs \<Longrightarrow> P x \<Longrightarrow> \<exists>y. first_row (filter P xs) = Some y"
proof -
  assume "x \<in> set xs" "P x"
  then have "filter P xs \<noteq> []"
    by (auto simp: filter_empty_conv)
  then show ?thesis
    by (cases "filter P xs") (simp_all add: first_row_def)
qed

text \<open>
  C2, as the code has it. A refresh request that carries a token fails with the one answer
  401 \<open>Invalid or expired refresh token\<close>, and leaves the datastore as it was, when the
  token does not verify (bad signature or expired), or when it verifies as a refresh token
  but every session row of that seller and hash is inactive or expired (none existing
  included). A token that verifies with another declared type is answered differently:
  400 \<open>Invalid token type\<close>.
\<close>

theorem refresh_failure_responses:
  assumes "truthy tok"
  shows "(jwt_verify E (str_or tok []) now = None \<longrightarrow>
            refresh E now tok d = (Resp 401 (ErrorBody ''Invalid or expired refresh token''), d))
       \<and> (\<forall>p. jwt_verify E (str_or tok []) now = Some p \<longrightarrow> token_type p = Some ''refresh'' \<longrightarrow>
              (\<forall>s \<in> set (auth_sessions d).
                  Some (sess_seller_id s) = userId p
                  \<and> refresh_token_hash s = hashToken E (str_or tok []) \<longrightarrow>
                  \<not> is_active s \<or> sess_expires_at s \<le> now) \<longrightarrow>
              refresh E now tok d = (Resp 401 (ErrorBody ''Invalid or expired refresh token''), d))
       \<and> (\<forall>p. jwt_verify E (str_or tok []) now = Some p \<longrightarrow> token_type p \<noteq> Some ''refresh'' \<longrightarrow>
              refresh E now tok d = (Resp 400 (ErrorBody ''Invalid token type''), d))"
proof (intro conjI allI impI)
  assume "jwt_verify E (str_or tok []) now = None"
  with assms show "refresh E now tok d = (Resp 401 (ErrorBody ''Invalid or expired refresh token''), d)"
    by (simp add: refresh_def)
next
  fix p
  assume v: "jwt_verify E (str_or tok []) now = Some p" and t: "token_type p = Some ''refresh''"
    and dead: "\<forall>s \<in> set (auth_sessions d).
                  Some (sess_seller_id s) = userId p
                  \<and> refresh_token_hash s = hashToken E (str_or tok []) \<longrightarrow>
                  \<not> is_active s \<or> sess_expires_at s \<le> now"
  have "filter (\<lambda>s. Some (sess_seller_id s) = userId p
                     \<and> refresh_token_hash s = hashToken E (str_or tok [])
                     \<and> is_active s \<and> now < sess_expires_at s) (auth_sessions d) = []"
    using dead by (fastforce simp: filter_empty_conv)
  with assms v t show "refresh E now tok d = (Resp 401 (ErrorBody ''Invalid or expired refresh token''), d)"
    by (simp add: refresh_def first_row_def)
next
  fix p
  assume "jwt_verify E (str_or tok []) now = Some p" and "token_type p \<noteq> Some ''refresh''"
  with assms show "refresh E now tok d = (Resp 400 (ErrorBody ''Invalid token type''), d)"
    by (simp add: refresh_def)
qed

text \<open>
  The claim as stated fails: an access token and a forged token, both presented to refresh,
  get different answers.
\<close>

theorem refresh_wrong_type_counterexample:
  "jwt_verify demo_env ''A'' 1001 = Some (demo_claims ''access'') \<and>
   jwt_verify demo_env ''forged'' 1001 = None \<and>
   fst (refresh demo_env 1001 (Some ''A'') demo_db) = Resp 400 (ErrorBody ''Invalid token type'') \<and>
   fst (refresh demo_env 1001 (Some ''forged'') demo_db)
     = Resp 401 (ErrorBody ''Invalid or expired refresh token'') \<and>
   fst (refresh demo_env 1001 (Some ''A'') demo_db) \<noteq> fst (refresh demo_env 1001 (Some ''forged'') demo_db)"
  by (simp add: refresh_def demo_env_def truthy_def str_or_def demo_claims_def)

theorem refresh_failure_responses_witness:
  "truthy (Some ''forged'') \<and> jwt_verify demo_env (str_or (Some ''forged'') []) 1001 = None \<and>
   refresh demo_env 1001 (Some ''forged'') demo_db
     = (Resp 401 (ErrorBody ''Invalid or expired refresh token''), demo_db) \<and>
   truthy (Some ''R'') \<and>
   jwt_verify demo_env (str_or (Some ''R'') []) 700000 = Some (demo_claims ''refresh'') \<and>
   token_type (demo_claims ''refresh'') = Some ''refresh'' \<and>
   sess_expires_at demo_session \<le> 700000 \<and>
   refresh demo_env 700000 (Some ''R'') demo_db
     = (Resp 401 (ErrorBody ''Invalid or expired refresh token''), demo_db) \<and>
   refresh demo_env 1001 (Some ''R'') (demo_db\<lparr>auth_sessions := []\<rparr>)
     = (Resp 401 (ErrorBody ''Invalid or expired refresh token''), demo_db\<lparr>auth_sessions := []\<rparr>) \<and>
   truthy (Some ''A'') \<and>
   jwt_verify demo_env (str_or (Some ''A'') []) 1001 = Some (demo_claims ''access'') \<and>
   token_type (demo_claims ''access'') \<noteq> Some ''refresh'' \<and>
   refresh demo_env 1001 (Some ''A'') demo_db = (Resp 400 (ErrorBody ''Invalid token type''), demo_db)"
proof -
  have t: "truthy (Some ''forged'')" "truthy (Some ''R'')" "truthy (Some ''A'')"
    by (simp_all add: truthy_def)
  have v: "jwt_verify demo_env (str_or (Some ''forged'') []) 1001 = None"
    "jwt_verify demo_env (str_or (Some ''R'') []) n = Some (demo_claims ''refresh'')"
    "jwt_verify demo_env (str_or (Some ''A'') []) 1001 = Some (demo_claims ''access'')" for n
    by (simp_all add: demo_env_def str_or_def)
  have ty: "token_type (demo_claims ''refresh'') = Some ''refresh''"
    "token_type (demo_claims ''access'') \<noteq> Some ''refresh''"
    by (simp_all add: demo_claims_def)
  have ex: "sess_expires_at demo_session \<le> 700000"
    by (simp add: demo_session_def)
  have dead1: "\<forall>s \<in> set (auth_sessions demo_db).
                  Some (sess_seller_id s) = userId (demo_claims ''refresh'')
                  \<and> refresh_token_hash s = hashToken demo_env (str_or (Some ''R'') []) \<longrightarrow>
                  \<not> is_active s \<or> sess_expires_at s \<le> 700000"
    by (simp add: demo_db_def empty_db_def demo_session_def)
  have dead2: "\<forall>s \<in> set (auth_sessions (demo_db\<lparr>auth_sessions := []\<rparr>)).
                  Some (sess_seller_id s) = userId (demo_claims ''refresh'')
                  \<and> refresh_token_hash s = hashToken demo_env (str_or (Some ''R'') []) \<longrightarrow>
                  \<not> is_active s \<or> sess_expires_at s \<le> 1001"
    by simp
  note a = refresh_failure_responses [OF t(1), of demo_env 1001 demo_db, THEN conjunct1, rule_format, OF v(1)]
  note b = refresh_failure_responses [OF t(2), of demo_env 700000 demo_db, THEN conjunct2, THEN conjunct1,
      rule_format, OF v(2) ty(1) dead1 [rule_format]]
  note c = refresh_failure_responses [OF t(2), of demo_env 1001 "demo_db\<lparr>auth_sessions := []\<rparr>",
      THEN conjunct2, THEN conjunct1, rule_format, OF v(2) ty(1) dead2 [rule_format]]
  note e = refresh_failure_responses [OF t(3), of demo_env 1001 demo_db, THEN conjunct2, THEN conjunct2,
      rule_format, OF v(3) ty(2)]
  show ?thesis
    using t v(1) v(2) [of 700000] v(3) ty ex a b c e by (intro conjI)
qed

text \<open>
  C3. The claim asks every handler that expects an access token to reject a token whose
  declared type is \<open>refresh\<close>. \<^verbatim>\<open>authMiddleware\<close>, which guards every \<^verbatim>\<open>/api\<close> route, does not
  look at the type: on the request whose bearer token verifies with type \<open>refresh\<close> it calls
  \<^verbatim>\<open>next()\<close> for seller \<open>S1\<close>, where the handler of \<^verbatim>\<open>/auth/me\<close> answers the same request
  with 401 \<open>Invalid token type\<close>.
\<close>

theorem authMiddleware_accepts_refresh_token:
  "bearer_match ''Bearer R'' = Some ''R'' \<and>
   jwt_verify demo_env ''R'' 1001 = Some (demo_claims ''refresh'') \<and>
   token_type (demo_claims ''refresh'') = Some ''refresh'' \<and>
   authMiddleware demo_env 1001 demo_req = Next (Some ''S1'') \<and>
   me demo_env 1001 demo_req demo_db = Resp 401 (ErrorBody ''Invalid token type'')"
proof -
  have b: "bearer_match ''Bearer R'' = Some ''R''"
    by (simp add: bearer_match_def lower_ascii_def is_space_def)
  have h: "str_or (authorization demo_req) [] = ''Bearer R''"
    by (simp add: demo_req_def str_or_def)
  have v: "jwt_verify demo_env ''R'' 1001 = Some (demo_claims ''refresh'')"
    by (simp add: demo_env_def)
  have t: "token_type (demo_claims ''refresh'') = Some ''refresh''"
    by (simp add: demo_claims_def)
  have m: "authMiddleware demo_env 1001 demo_req = Next (Some ''S1'')"
    by (simp add: authMiddleware_def h b v js_or_def truthy_def demo_claims_def)
  have e: "me demo_env 1001 demo_req demo_db = Resp 401 (ErrorBody ''Invalid token type'')"
    by (simp add: me_def h b v t)
  show ?thesis
    using b v t m e by (intro conjI)
qed

lemma refresh_ok_unfold:
  assumes "truthy tok" and "jwt_verify E (str_or tok []) now = Some p"
    and "token_type p = Some ''refresh''"
    and "first_row (filter (\<lambda>s. Some (sess_seller_id s) = userId p
                                 \<and> refresh_token_hash s = hashToken E (str_or tok [])
                                 \<and> is_active s \<and> now < sess_expires_at s) (auth_sessions d)) = Some s0"
    and "first_row (filter (\<lambda>s. Some (seller_id s) = userId p) (sellers d)) = Some seller"
  shows "refresh E now tok d
           = (Resp 200 (RefreshBody (jwt_sign E (access_claims seller (rest_phone seller)) now (15 * 60))
                          900 (user_of seller (rest_phone seller))),
              d\<lparr>auth_sessions := map (\<lambda>s. if sess_session_id s = sess_session_id s0
                                           then s\<lparr>last_used := now\<rparr> else s) (auth_sessions d)\<rparr>)"
  using assms by (simp add: refresh_def Let_def)

text \<open>
  C6. Whenever refresh answers 200, the token verified as a refresh token, an active and
  unexpired session row of its seller carries its hash, and the body holds exactly one
  token: an access token, valid for 900 seconds, signed over the id, the phone, the owner
  name, the restaurant name, the address id and the menu id of the seller row read from the
  datastore, none of them taken from the payload of the presented token; the user object of
  the body holds the same fields of that row. The datastore afterwards differs only in \<open>last_used\<close> of that session,
  which is the time of the call: no session row is added and no stored hash changes, so no
  new refresh token exists. The same token is accepted again at any later time at which it
  still verifies and the session has not expired, and is rejected once logout has been
  called with it.
\<close>

theorem refresh_success:
  assumes "refresh E now tok d = (Resp 200 b, d')"
  shows "\<exists>p s0 seller.
           jwt_verify E (str_or tok []) now = Some p \<and> token_type p = Some ''refresh''
         \<and> first_row (filter (\<lambda>s. Some (seller_id s) = userId p) (sellers d)) = Some seller
         \<and> seller \<in> set (sellers d) \<and> Some (seller_id seller) = userId p
         \<and> b = RefreshBody
                 (jwt_sign E
                    \<lparr>userId = Some (seller_id seller), id_claim = None, sub = None,
                     phone = rest_phone seller, name = Some (owner_name seller),
                     restaurant = Some (restaurant_name seller), addressId = address_id seller,
                     menuId = menu_id seller, token_type = Some ''access''\<rparr> now 900)
                 900
                 \<lparr>user_id = seller_id seller, user_name = owner_name seller,
                  user_phone = rest_phone seller, user_restaurant = restaurant_name seller,
                  user_addressId = address_id seller, user_menuId = menu_id seller\<rparr>
         \<and> s0 \<in> set (auth_sessions d) \<and> Some (sess_seller_id s0) = userId p
         \<and> refresh_token_hash s0 = hashToken E (str_or tok [])
         \<and> is_active s0 \<and> now < sess_expires_at s0
         \<and> d' = d\<lparr>auth_sessions := map (\<lambda>s. if sess_session_id s = sess_session_id s0
                                               then s\<lparr>last_used := now\<rparr> else s) (auth_sessions d)\<rparr>
         \<and> s0\<lparr>last_used := now\<rparr> \<in> set (auth_sessions d')
         \<and> map refresh_token_hash (auth_sessions d') = map refresh_token_hash (auth_sessions d)
         \<and> (\<forall>now'. jwt_verify E (str_or tok []) now' = Some p \<longrightarrow> now' < sess_expires_at s0 \<longrightarrow>
               (\<exists>b' d''. refresh E now' tok d' = (Resp 200 b', d'')))
         \<and> (\<forall>now' req. jwt_verify E (str_or tok []) now' = Some p \<longrightarrow>
               fst (refresh E now' tok (snd (logout E now' req tok d')))
                 = Resp 401 (ErrorBody ''Invalid or expired refresh token''))"
proof -
  let ?t = "str_or tok []"
  let ?h = "hashToken E ?t"
  have tk: "truthy tok"
    using assms by (auto simp: refresh_def split: if_splits)
  obtain p where v: "jwt_verify E ?t now = Some p"
    using assms tk by (cases "jwt_verify E ?t now") (auto simp: refresh_def)
  have ty: "token_type p = Some ''refresh''"
    using assms tk v by (auto simp: refresh_def split: if_splits)
  let ?P = "\<lambda>n s. Some (sess_seller_id s) = userId p \<and> refresh_token_hash s = ?h
                   \<and> is_active s \<and> n < sess_expires_at s"
  obtain s0 where f0: "first_row (filter (?P now) (auth_sessions d)) = Some s0"
    using assms tk v ty by (cases "first_row (filter (?P now) (auth_sessions d))")
      (auto simp: refresh_def Let_def)
  let ?u = "\<lambda>s. if sess_session_id s = sess_session_id s0 then s\<lparr>last_used := now\<rparr> else s"
  let ?Q = "\<lambda>s. Some (seller_id s) = userId p"
  obtain seller where fs: "first_row (filter ?Q (sellers d)) = Some seller"
    using assms tk v ty f0 by (cases "first_row (filter ?Q (sellers d))")
      (auto simp: refresh_def Let_def)
  note run = refresh_ok_unfold [OF tk v ty f0 fs]
  from run assms have b: "b = RefreshBody
                 (jwt_sign E
                    \<lparr>userId = Some (seller_id seller), id_claim = None, sub = None,
                     phone = rest_phone seller, name = Some (owner_name seller),
                     restaurant = Some (restaurant_name seller), addressId = address_id seller,
                     menuId = menu_id seller, token_type = Some ''access''\<rparr> now 900)
                 900
                 \<lparr>user_id = seller_id seller, user_name = owner_name seller,
                  user_phone = rest_phone seller, user_restaurant = restaurant_name seller,
                  user_addressId = address_id seller, user_menuId = menu_id seller\<rparr>"
    and d': "d' = d\<lparr>auth_sessions := map ?u (auth_sessions d)\<rparr>"
    by (simp_all add: access_claims_def user_of_def)
  from first_row_filter_Some [OF fs] have sin: "seller \<in> set (sellers d)"
    and sid: "Some (seller_id seller) = userId p"
    by simp_all
  from first_row_filter_Some [OF f0] have s0: "s0 \<in> set (auth_sessions d)" and P0: "?P now s0"
    by simp_all
  have rows: "auth_sessions d' = map ?u (auth_sessions d)" and sel: "sellers d' = sellers d"
    by (simp_all add: d')
  have "?u s0 \<in> ?u ` set (auth_sessions d)"
    using s0 by (rule imageI)
  then have touched: "s0\<lparr>last_used := now\<rparr> \<in> set (auth_sessions d')"
    by (simp add: rows)
  have hashes: "map refresh_token_hash (auth_sessions d') = map refresh_token_hash (auth_sessions d)"
    by (simp add: rows)
  have again: "\<exists>b' d''. refresh E now' tok d' = (Resp 200 b', d'')"
    if v': "jwt_verify E ?t now' = Some p" and live: "now' < sess_expires_at s0" for now'
  proof -
    have "first_row (filter (?P now') (auth_sessions d'))
            = map_option ?u (first_row (filter (?P now') (auth_sessions d)))"
      unfolding rows by (rule first_row_filter_map) simp
    moreover have "\<exists>y. first_row (filter (?P now') (auth_sessions d)) = Some y"
      using s0 P0 live by (intro first_row_filter_nonempty [of s0]) simp_all
    ultimately obtain y where f1: "first_row (filter (?P now') (auth_sessions d')) = Some y"
      by auto
    have fs': "first_row (filter ?Q (sellers d')) = Some seller"
      by (simp add: sel fs)
    from refresh_ok_unfold [OF tk v' ty f1 fs'] show ?thesis
      by (intro exI)
  qed
  have out: "fst (refresh E now' tok (snd (logout E now' req tok d')))
                 = Resp 401 (ErrorBody ''Invalid or expired refresh token'')"
    if v': "jwt_verify E ?t now' = Some p" for now' req
  proof -
    let ?d2 = "snd (logout E now' req tok d')"
    have "auth_sessions ?d2 = map (\<lambda>s. if refresh_token_hash s = ?h then s\<lparr>is_active := False\<rparr> else s)
                                 (auth_sessions d')"
      using tk by (simp add: logout_def Let_def)
    then have "filter (?P now') (auth_sessions ?d2) = []"
      by (auto simp: filter_empty_conv)
    then show ?thesis
      using tk v' ty by (simp add: refresh_def Let_def first_row_def)
  qed
  show ?thesis
    using v ty fs sin sid b s0 P0 d' touched hashes again out
    by (intro exI [of _ p] exI [of _ s0] exI [of _ seller]) simp
qed


lemma demo_refresh_run:
  "refresh rendering_env 1001 (Some ''R'')
     (demo_db\<lparr>sellers := [demo_seller\<lparr>rest_phone := Some ''8888888888''\<rparr>]\<rparr>)
   = (Resp 200 (RefreshBody ''S1|8888888888|Asha|Dosa Hut|7|3|access'' 900
                 \<lparr>user_id = ''S1'', user_name = ''Asha'', user_phone = Some ''8888888888'',
                  user_restaurant = ''Dosa Hut'', user_addressId = Some 7, user_menuId = Some 3\<rparr>),
      demo_db\<lparr>sellers := [demo_seller\<lparr>rest_phone := Some ''8888888888''\<rparr>],
              auth_sessions := [demo_session\<lparr>last_used := 1001\<rparr>]\<rparr>)"
proof -
  let ?s = "demo_seller\<lparr>rest_phone := Some ''8888888888''\<rparr>"
  let ?d = "demo_db\<lparr>sellers := [?s]\<rparr>"
  have t: "truthy (Some ''R'')"
    by (simp add: truthy_def)
  have v: "jwt_verify rendering_env (str_or (Some ''R'') []) 1001 = Some (demo_claims ''refresh'')"
    by (simp add: rendering_env_def demo_env_def str_or_def)
  have ty: "token_type (demo_claims ''refresh'') = Some ''refresh''"
    by (simp add: demo_claims_def)
  have ses: "auth_sessions ?d = [demo_session]"
    by (simp add: demo_db_def empty_db_def)
  have f0: "first_row (filter (\<lambda>s. Some (sess_seller_id s) = userId (demo_claims ''refresh'')
                                 \<and> refresh_token_hash s = hashToken rendering_env (str_or (Some ''R'') [])
                                 \<and> is_active s \<and> 1001 < sess_expires_at s) (auth_sessions ?d))
            = Some demo_session"
    unfolding ses
    by (simp add: first_row_def demo_session_def demo_claims_def hashToken_def rendering_env_def
        demo_env_def str_or_def)
  have fs: "first_row (filter (\<lambda>s. Some (seller_id s) = userId (demo_claims ''refresh'')) (sellers ?d))
            = Some ?s"
    by (simp add: first_row_def demo_seller_def demo_claims_def)
  have j: "jwt_sign rendering_env (access_claims ?s (rest_phone ?s)) n t
             = ''S1|8888888888|Asha|Dosa Hut|7|3|access''" for n t
    by (simp add: rendering_env_def demo_env_def access_claims_def render_claims_def opt_text_def
        opt_digit_def demo_seller_def)
  have u: "user_of ?s (rest_phone ?s)
             = \<lparr>user_id = ''S1'', user_name = ''Asha'', user_phone = Some ''8888888888'',
                user_restaurant = ''Dosa Hut'', user_addressId = Some 7, user_menuId = Some 3\<rparr>"
    by (simp add: user_of_def demo_seller_def)
  show ?thesis
    unfolding refresh_ok_unfold [OF t v ty f0 fs] j u ses by simp
qed

theorem refresh_success_witness:
  "phone (demo_claims ''refresh'') = Some ''9999999999'' \<and>
   jwt_verify rendering_env ''R'' 1001 = Some (demo_claims ''refresh'') \<and>
   refresh rendering_env 1001 (Some ''R'')
     (demo_db\<lparr>sellers := [demo_seller\<lparr>rest_phone := Some ''8888888888''\<rparr>]\<rparr>)
   = (Resp 200 (RefreshBody ''S1|8888888888|Asha|Dosa Hut|7|3|access'' 900
                 \<lparr>user_id = ''S1'', user_name = ''Asha'', user_phone = Some ''8888888888'',
                  user_restaurant = ''Dosa Hut'', user_addressId = Some 7, user_menuId = Some 3\<rparr>),
      demo_db\<lparr>sellers := [demo_seller\<lparr>rest_phone := Some ''8888888888''\<rparr>],
              auth_sessions := [demo_session\<lparr>last_used := 1001\<rparr>]\<rparr>) \<and>
   (\<exists>b' d''. refresh rendering_env 2000 (Some ''R'')
                (demo_db\<lparr>sellers := [demo_seller\<lparr>rest_phone := Some ''8888888888''\<rparr>],
                         auth_sessions := [demo_session\<lparr>last_used := 1001\<rparr>]\<rparr>)
              = (Resp 200 b', d'')) \<and>
   fst (refresh rendering_env 2000 (Some ''R'')
          (snd (logout rendering_env 2000 demo_req (Some ''R'')
                  (demo_db\<lparr>sellers := [demo_seller\<lparr>rest_phone := Some ''8888888888''\<rparr>],
                           auth_sessions := [demo_session\<lparr>last_used := 1001\<rparr>]\<rparr>))))
     = Resp 401 (ErrorBody ''Invalid or expired refresh token'')"
proof -
  let ?d = "demo_db\<lparr>sellers := [demo_seller\<lparr>rest_phone := Some ''8888888888''\<rparr>]\<rparr>"
  let ?d' = "demo_db\<lparr>sellers := [demo_seller\<lparr>rest_phone := Some ''8888888888''\<rparr>],
              auth_sessions := [demo_session\<lparr>last_used := 1001\<rparr>]\<rparr>"
  have v: "jwt_verify rendering_env (str_or (Some ''R'') []) n = Some (demo_claims ''refresh'')" for n
    by (simp add: rendering_env_def demo_env_def str_or_def)
  have v0: "jwt_verify rendering_env ''R'' 1001 = Some (demo_claims ''refresh'')"
    by (simp add: rendering_env_def demo_env_def)
  have ses: "auth_sessions ?d = [demo_session]"
    by (simp add: demo_db_def empty_db_def)
  from refresh_success [OF demo_refresh_run] obtain p s0 where
    p: "jwt_verify rendering_env (str_or (Some ''R'') []) 1001 = Some p"
    and s0: "s0 \<in> set (auth_sessions ?d)"
    and again: "\<forall>now'. jwt_verify rendering_env (str_or (Some ''R'') []) now' = Some p \<longrightarrow>
               now' < sess_expires_at s0 \<longrightarrow>
               (\<exists>b' d''. refresh rendering_env now' (Some ''R'') ?d' = (Resp 200 b', d''))"
    and out: "\<forall>now' req. jwt_verify rendering_env (str_or (Some ''R'') []) now' = Some p \<longrightarrow>
               fst (refresh rendering_env now' (Some ''R'') (snd (logout rendering_env now' req (Some ''R'') ?d')))
                 = Resp 401 (ErrorBody ''Invalid or expired refresh token'')"
    by (elim exE conjE) (rule that)
  have pe: "p = demo_claims ''refresh''"
    using p by (simp add: v)
  have se: "s0 = demo_session"
    using s0 by (simp add: ses)
  have live: "2000 < sess_expires_at s0"
    by (simp add: se demo_session_def)
  note 1 = again [rule_format, OF v [of 2000, folded pe] live]
  note 2 = out [rule_format, OF v [of 2000, folded pe], of demo_req]
  have 3: "phone (demo_claims ''refresh'') = Some ''9999999999''"
    by (simp add: demo_claims_def)
  show ?thesis
    using 3 v0 demo_refresh_run 1 2 by (intro conjI)
qed
section \<open>Properties of the cascade deletion\<close>

lemma observed_simps [simp]:
  "working (observed q) = working q"
  "committed (observed q) = committed q"
  "isTransactionActive (observed q) = isTransactionActive q"
  "isReleased (observed q) = isReleased q"
  "visible (observed q) = visible q @ [committed q]"
  by (simp_all add: observed_def)

lemma and_then_Inr: "and_then r f = Inr y \<longleftrightarrow> (\<exists>x. r = Inr x \<and> f x = Inr y)"
  by (cases r) (simp_all add: and_then_def)

lemma query_Inr:
  "query fails k stmt q = Inr q' \<longleftrightarrow>
     \<not> fails k (working q) \<and> q' = observed (q\<lparr>working := stmt (working q)\<rparr>)"
  by (auto simp: query_def)

lemma query_InrD:
  "query fails k stmt q = Inr q' \<Longrightarrow>
     working q' = stmt (working q) \<and> committed q' = committed q"
  by (auto simp: query_Inr)

lemma commit_InrD:
  "commitTransaction fails k q = Inr q' \<Longrightarrow> committed q' = working q"
  by (auto simp: commitTransaction_def split: if_splits)

lemma delete_seller_row_InrD:
  "delete_seller_row fails sellerId q = Inr q' \<Longrightarrow>
     \<not> referenced_in_auth_logs sellerId (working q)
     \<and> working q' = (working q)\<lparr>sellers := filter (\<lambda>s. seller_id s \<noteq> sellerId) (sellers (working q))\<rparr>
     \<and> committed q' = committed q"
  by (auto simp: delete_seller_row_def query_Inr split: if_splits)

lemma delete_related_Inr:
  "delete_related fails k ts sellerId q = Inr q' \<Longrightarrow>
     committed q' = committed q
     \<and> working q' = fold (\<lambda>t. delete_by_rest_id t sellerId) ts (working q)"
proof (induction ts arbitrary: k q)
  case Nil
  then show ?case by simp
next
  case (Cons t ts)
  from Cons.prems obtain q1 where
    1: "query fails k (delete_by_rest_id t sellerId) q = Inr q1"
    and 2: "delete_related fails (Suc k) ts sellerId q1 = Inr q'"
    by (auto simp: and_then_Inr)
  from query_InrD [OF 1] Cons.IH [OF 2] show ?case by simp
qed

lemma delete_related_no_failure:
  "\<exists>q'. delete_related (\<lambda>k w. False) k ts sellerId q = Inr q'"
  by (induction ts arbitrary: k q) (simp_all add: and_then_def query_def)

lemma fold_relatedTables:
  "fold (\<lambda>t. delete_by_rest_id t sellerId) relatedTables w
     = w\<lparr>collection := filter (\<lambda>r. rest_id r \<noteq> sellerId) (collection w),
          likes := filter (\<lambda>r. rest_id r \<noteq> sellerId) (likes w),
          menu := filter (\<lambda>r. rest_id r \<noteq> sellerId) (menu w),
          order_list := filter (\<lambda>r. rest_id r \<noteq> sellerId) (order_list w),
          orders := filter (\<lambda>r. rest_id r \<noteq> sellerId) (orders w),
          rating := filter (\<lambda>r. rest_id r \<noteq> sellerId) (rating w)\<rparr>"
  by (simp add: relatedTables_def delete_by_rest_id_def)

lemma runner_sound_observed: "runner_sound c q \<Longrightarrow> runner_sound c (observed q)"
  by (simp add: runner_sound_def)

lemma runner_sound_working: "runner_sound c q \<Longrightarrow> runner_sound c (q\<lparr>working := w\<rparr>)"
  by (simp add: runner_sound_def)

lemma runner_sound_start: "runner_sound d (startTransaction (createQueryRunner d))"
  by (simp add: runner_sound_def startTransaction_def createQueryRunner_def)

lemma runner_intact_query: "runner_sound c q \<Longrightarrow> runner_intact c (query fails k stmt q)"
  by (simp add: runner_intact_def query_def runner_sound_observed runner_sound_working)

lemma runner_intact_Inr: "runner_sound c q \<Longrightarrow> runner_intact c (Inr q)"
  by (simp add: runner_intact_def)

lemma runner_intact_and_then:
  assumes "runner_intact c r" and "\<And>x. runner_sound c x \<Longrightarrow> runner_intact c (f x)"
  shows "runner_intact c (and_then r f)"
  using assms by (cases r) (auto simp: runner_intact_def and_then_def)

lemma runner_intact_delete_related:
  "runner_sound c q \<Longrightarrow> runner_intact c (delete_related fails k ts sellerId q)"
  by (induction ts arbitrary: k q)
    (simp_all add: runner_intact_Inr runner_intact_and_then runner_intact_query)

lemma runner_intact_delete_seller_row:
  "runner_sound c q \<Longrightarrow> runner_intact c (delete_seller_row fails sellerId q)"
  by (simp add: delete_seller_row_def runner_intact_query)
    (simp add: runner_intact_def runner_sound_observed)

lemma failure_intact_commit: "runner_sound c q \<Longrightarrow> failure_intact c (commitTransaction fails k q)"
  by (simp add: failure_intact_def commitTransaction_def runner_sound_observed)

lemma failure_intact_and_then:
  assumes "runner_intact c r" and "\<And>x. runner_sound c x \<Longrightarrow> failure_intact c (f x)"
  shows "failure_intact c (and_then r f)"
  using assms by (cases r) (auto simp: runner_intact_def failure_intact_def and_then_def)

lemma runner_intact_delete_unused_address:
  "runner_sound c q \<Longrightarrow> runner_intact c (delete_unused_address fails a q)"
  unfolding delete_unused_address_def
  by (auto intro!: runner_intact_and_then runner_intact_query runner_intact_Inr
      split: option.splits)

lemma handleSellerDeletion_try_intact:
  "runner_sound c q \<Longrightarrow> failure_intact c (handleSellerDeletion_try fails sellerId q)"
  unfolding handleSellerDeletion_try_def Let_def
  by (intro failure_intact_and_then runner_intact_and_then runner_intact_query
      runner_intact_delete_related runner_intact_delete_seller_row
      runner_intact_delete_unused_address failure_intact_commit)

lemma commit_shape_commit: "runner_sound c q \<Longrightarrow> commit_shape c (commitTransaction fails k q)"
  by (auto simp: commit_shape_def commitTransaction_def runner_sound_def list_all_iff)

lemma commit_shape_and_then:
  assumes "runner_intact c r" and "\<And>x. runner_sound c x \<Longrightarrow> commit_shape c (f x)"
  shows "commit_shape c (and_then r f)"
  using assms by (cases r) (auto simp: runner_intact_def commit_shape_def and_then_def)

lemma handleSellerDeletion_try_shape:
  "runner_sound c q \<Longrightarrow> commit_shape c (handleSellerDeletion_try fails sellerId q)"
  unfolding handleSellerDeletion_try_def Let_def
  by (intro commit_shape_and_then runner_intact_and_then runner_intact_query
      runner_intact_delete_related runner_intact_delete_seller_row
      runner_intact_delete_unused_address commit_shape_commit)

lemma delete_unused_address_Inr:
  assumes "delete_unused_address fails a q = Inr q'" and "working q = w"
  shows "working q' =
           (case a of
              None \<Rightarrow> w
            | Some k \<Rightarrow>
                if k \<noteq> 0 \<and> filter (\<lambda>s. address_id s = Some k) (sellers w) = []
                then w\<lparr>addresses := filter (\<lambda>r. addr_address_id r \<noteq> k) (addresses w)\<rparr>
                else w)"
  using assms unfolding delete_unused_address_def
  by (auto simp: and_then_Inr query_Inr split: option.splits if_splits)

lemma handleSellerDeletion_try_Inr:
  assumes "handleSellerDeletion_try fails sellerId q = Inr q'" and "working q = d"
  shows "committed q' = cascade_deleted sellerId d \<and> \<not> referenced_in_auth_logs sellerId d"
proof -
  let ?w1 = "d\<lparr>auth_sessions := filter (\<lambda>s. sess_seller_id s \<noteq> sellerId) (auth_sessions d)\<rparr>"
  let ?w2 = "fold (\<lambda>t. delete_by_rest_id t sellerId) relatedTables ?w1"
  let ?a = "case first_row (filter (\<lambda>s. seller_id s = sellerId) (sellers ?w2)) of
              None \<Rightarrow> None | Some s \<Rightarrow> address_id s"
  let ?w4 = "?w2\<lparr>sellers := filter (\<lambda>s. seller_id s \<noteq> sellerId) (sellers ?w2)\<rparr>"
  from assms(1) obtain q1 q2 q3 q4 q5 where
    1: "query fails 2
          (\<lambda>w. w\<lparr>auth_sessions := filter (\<lambda>s. sess_seller_id s \<noteq> sellerId) (auth_sessions w)\<rparr>) q
        = Inr q1"
    and 2: "delete_related fails 3 relatedTables sellerId q1 = Inr q2"
    and 3: "query fails 9 (\<lambda>w. w) q2 = Inr q3"
    and 4: "delete_seller_row fails sellerId q3 = Inr q4"
    and 5: "delete_unused_address fails
              (case first_row (filter (\<lambda>s. seller_id s = sellerId) (sellers (working q3))) of
                 None \<Rightarrow> None | Some s \<Rightarrow> address_id s) q4 = Inr q5"
    and 6: "commitTransaction fails 13 q5 = Inr q'"
    unfolding handleSellerDeletion_try_def Let_def and_then_Inr
    by (elim exE conjE) (rule that; assumption)
  from query_InrD [OF 1] assms(2) have w1: "working q1 = ?w1"
    by simp
  from delete_related_Inr [OF 2] w1 have w2: "working q2 = ?w2"
    by simp
  from query_InrD [OF 3] w2 have w3: "working q3 = ?w2"
    by simp
  from delete_seller_row_InrD [OF 4] w3 have nr: "\<not> referenced_in_auth_logs sellerId ?w2"
    and w4: "working q4 = ?w4"
    by simp_all
  from nr have free: "\<not> referenced_in_auth_logs sellerId d"
    by (simp add: referenced_in_auth_logs_def fold_relatedTables)
  from commit_InrD [OF 6] have "committed q' = working q5" .
  also from delete_unused_address_Inr [OF 5 [unfolded w3] w4] have "working q5 =
      (case ?a of
         None \<Rightarrow> ?w4
       | Some k \<Rightarrow>
           if k \<noteq> 0 \<and> filter (\<lambda>s. address_id s = Some k) (sellers ?w4) = []
           then ?w4\<lparr>addresses := filter (\<lambda>r. addr_address_id r \<noteq> k) (addresses ?w4)\<rparr>
           else ?w4)" .
  also have "\<dots> = cascade_deleted sellerId d"
    by (simp add: fold_relatedTables cascade_deleted_def Let_def split: option.splits)
  finally show ?thesis
    using free by simp
qed

lemma handleSellerDeletion_try_no_failure:
  assumes "\<not> referenced_in_auth_logs sellerId (working q)"
  shows "\<exists>q'. handleSellerDeletion_try (\<lambda>k w. False) sellerId q = Inr q'"
proof -
  let ?F = "\<lambda>(k::nat) (w::db). False"
  let ?q1 = "observed (q\<lparr>working := (working q)\<lparr>auth_sessions :=
               filter (\<lambda>s. sess_seller_id s \<noteq> sellerId) (auth_sessions (working q))\<rparr>\<rparr>)"
  have a: "\<exists>q'. delete_unused_address ?F x q = Inr q'" for x q
    by (simp add: delete_unused_address_def and_then_def query_def split: option.splits)
  have c: "\<exists>q'. commitTransaction ?F k q = Inr q'" for k q
    by (simp add: commitTransaction_def)
  obtain q2 where 2: "delete_related ?F 3 relatedTables sellerId ?q1 = Inr q2"
    using delete_related_no_failure by blast
  from delete_related_Inr [OF 2] have w2: "working q2
      = fold (\<lambda>t. delete_by_rest_id t sellerId) relatedTables
          ((working q)\<lparr>auth_sessions := filter (\<lambda>s. sess_seller_id s \<noteq> sellerId)
                                            (auth_sessions (working q))\<rparr>)"
    by simp
  have nr: "\<not> referenced_in_auth_logs sellerId (working q2)"
    using assms by (simp add: w2 fold_relatedTables referenced_in_auth_logs_def)
  let ?a = "case first_row (filter (\<lambda>s. seller_id s = sellerId) (sellers (working q2))) of
              None \<Rightarrow> None | Some s \<Rightarrow> address_id s"
  let ?q4 = "observed ((observed q2)\<lparr>working :=
               (working q2)\<lparr>sellers := filter (\<lambda>s. seller_id s \<noteq> sellerId) (sellers (working q2))\<rparr>\<rparr>)"
  obtain q5 where 5: "delete_unused_address ?F ?a ?q4 = Inr q5"
    using a by blast
  from c obtain q6 where 6: "commitTransaction ?F 13 q5 = Inr q6"
    by blast
  show ?thesis
    by (simp add: handleSellerDeletion_try_def Let_def and_then_def query_def delete_seller_row_def
        nr 2 5 6)
qed

text \<open>
  What a committed cascade leaves. When the cascade deletion of a seller returns without
  error, the datastore is the one \<open>cascade_deleted\<close> describes: the seller's sessions, its
  rows in \<open>collection\<close>, \<open>likes\<close>, \<open>menu\<close>, \<open>order_list\<close>, \<open>orders\<close> and \<open>rating\<close>, and
  the seller row are removed and every other row of those tables is kept; the audit log and
  the OTP attempts are unchanged; the address table changes only by losing the rows of the
  seller's linked address id, and only when no remaining seller carries that id. It returns
  without error only when the seller is absent or no row of the audit log names it; then,
  with no failing statement, it does.
\<close>

lemma handleSellerDeletion_commits:
  assumes "handleSellerDeletion fails sellerId d = (Inr u, q)" and "d' = committed q"
  shows "d' = cascade_deleted sellerId d
       \<and> \<not> referenced_in_auth_logs sellerId d
       \<and> auth_sessions d' = filter (\<lambda>s. sess_seller_id s \<noteq> sellerId) (auth_sessions d)
       \<and> collection d' = filter (\<lambda>r. rest_id r \<noteq> sellerId) (collection d)
       \<and> likes d' = filter (\<lambda>r. rest_id r \<noteq> sellerId) (likes d)
       \<and> menu d' = filter (\<lambda>r. rest_id r \<noteq> sellerId) (menu d)
       \<and> order_list d' = filter (\<lambda>r. rest_id r \<noteq> sellerId) (order_list d)
       \<and> orders d' = filter (\<lambda>r. rest_id r \<noteq> sellerId) (orders d)
       \<and> rating d' = filter (\<lambda>r. rest_id r \<noteq> sellerId) (rating d)
       \<and> sellers d' = filter (\<lambda>s. seller_id s \<noteq> sellerId) (sellers d)
       \<and> auth_logs d' = auth_logs d
       \<and> otp_attempts d' = otp_attempts d
       \<and> (\<forall>s a. first_row (filter (\<lambda>s. seller_id s = sellerId) (sellers d)) = Some s \<longrightarrow>
                  address_id s = Some a \<longrightarrow>
                  (a \<noteq> 0 \<longrightarrow> filter (\<lambda>t. address_id t = Some a) (sellers d') = [] \<longrightarrow>
                     addresses d' = filter (\<lambda>r. addr_address_id r \<noteq> a) (addresses d))
                \<and> (filter (\<lambda>t. address_id t = Some a) (sellers d') \<noteq> [] \<longrightarrow>
                     addresses d' = addresses d))
       \<and> (addresses d' \<noteq> addresses d \<longrightarrow>
            (\<exists>s a. first_row (filter (\<lambda>s. seller_id s = sellerId) (sellers d)) = Some s
                  \<and> address_id s = Some a
                  \<and> filter (\<lambda>t. address_id t = Some a) (sellers d') = []
                  \<and> addresses d' = filter (\<lambda>r. addr_address_id r \<noteq> a) (addresses d)))
       \<and> (\<exists>q''. handleSellerDeletion (\<lambda>k w. False) sellerId d = (Inr (), q''))"
proof -
  let ?q0 = "startTransaction (createQueryRunner d)"
  have w0: "working ?q0 = d"
    by (simp add: startTransaction_def createQueryRunner_def)
  from assms(1) obtain q1 where
    t: "handleSellerDeletion_try fails sellerId ?q0 = Inr q1" and "q = release q1"
    by (auto simp: handleSellerDeletion_def Let_def split: if_splits sum.splits prod.splits)
  with assms(2) have "d' = committed q1"
    by (simp add: release_def)
  with handleSellerDeletion_try_Inr [OF t w0] have eq: "d' = cascade_deleted sellerId d"
    and free: "\<not> referenced_in_auth_logs sellerId d"
    by simp_all
  from free obtain q' where "handleSellerDeletion_try (\<lambda>k w. False) sellerId ?q0 = Inr q'"
    using handleSellerDeletion_try_no_failure [of sellerId ?q0] w0 by auto
  then have run: "\<exists>q''. handleSellerDeletion (\<lambda>k w. False) sellerId d = (Inr (), q'')"
    by (simp add: handleSellerDeletion_def Let_def)
  show ?thesis
    using run free unfolding eq
    by (auto simp: cascade_deleted_def Let_def split: option.splits if_splits)
qed

text \<open>
  The deletion of a seller that a row of the audit log names throws, whatever else fails or
  does not.
\<close>

lemma handleSellerDeletion_blocked:
  assumes "referenced_in_auth_logs sellerId d"
  shows "\<exists>e. fst (handleSellerDeletion fails sellerId d) = Inl e"
proof (cases "fst (handleSellerDeletion fails sellerId d)")
  case (Inl e)
  then show ?thesis by simp
next
  case (Inr u)
  then have "handleSellerDeletion fails sellerId d = (Inr u, snd (handleSellerDeletion fails sellerId d))"
    by (simp add: prod_eq_iff)
  from handleSellerDeletion_commits [OF this refl] assms show ?thesis
    by simp
qed

lemma handleSellerDeletion_failure:
  assumes "fst (handleSellerDeletion fails sellerId d) = Inl e"
  shows "committed (snd (handleSellerDeletion fails sellerId d)) = d"
    and "working (snd (handleSellerDeletion fails sellerId d)) = d"
    and "\<not> isTransactionActive (snd (handleSellerDeletion fails sellerId d))"
    and "list_all (\<lambda>v. v = d) (visible (snd (handleSellerDeletion fails sellerId d)))"
proof -
  let ?q0 = "startTransaction (createQueryRunner d)"
  let ?H = "handleSellerDeletion fails sellerId d"
  have all: "committed (snd ?H) = d \<and> working (snd ?H) = d \<and> \<not> isTransactionActive (snd ?H)
             \<and> list_all (\<lambda>v. v = d) (visible (snd ?H))"
  proof (cases "fails 0 d \<or> fails 1 d")
    case True
    then show ?thesis
      by (auto simp: handleSellerDeletion_def Let_def createQueryRunner_def)
  next
    case False
    show ?thesis
    proof (cases "handleSellerDeletion_try fails sellerId ?q0")
      case (Inr q)
      with False assms show ?thesis
        by (simp add: handleSellerDeletion_def Let_def)
    next
      case (Inl p)
      obtain e' q where p: "p = (e', q)"
        by (cases p)
      from handleSellerDeletion_try_intact [OF runner_sound_start, of d fails sellerId] Inl p
      have "runner_sound d q"
        by (simp add: failure_intact_def)
      then have "runner_sound d (rollbackTransaction q)"
        and "working (rollbackTransaction q) = d"
        and "\<not> isTransactionActive (rollbackTransaction q)"
        by (simp_all add: rollbackTransaction_def runner_sound_def)
      with False Inl p show ?thesis
        by (simp add: handleSellerDeletion_def Let_def release_def runner_sound_def)
    qed
  qed
  from all show "committed (snd ?H) = d" and "working (snd ?H) = d"
    and "\<not> isTransactionActive (snd ?H)" and "list_all (\<lambda>v. v = d) (visible (snd ?H))"
    by simp_all
qed

lemma handleSellerDeletion_released:
  "\<not> fails 0 d \<Longrightarrow> \<not> fails 1 d \<Longrightarrow> isReleased (snd (handleSellerDeletion fails sellerId d))"
  by (simp add: handleSellerDeletion_def Let_def release_def split: sum.splits prod.splits)

lemma handleSellerDeletion_success:
  assumes "fst (handleSellerDeletion fails sellerId d) = Inr u"
  shows "committed (snd (handleSellerDeletion fails sellerId d)) = cascade_deleted sellerId d"
    and "working (snd (handleSellerDeletion fails sellerId d)) = cascade_deleted sellerId d"
    and "\<not> isTransactionActive (snd (handleSellerDeletion fails sellerId d))"
    and "list_all (\<lambda>v. v = d \<or> v = cascade_deleted sellerId d)
           (visible (snd (handleSellerDeletion fails sellerId d)))"
proof -
  let ?q0 = "startTransaction (createQueryRunner d)"
  let ?H = "handleSellerDeletion fails sellerId d"
  have w0: "working ?q0 = d"
    by (simp add: startTransaction_def createQueryRunner_def)
  from assms obtain q1 where
    t: "handleSellerDeletion_try fails sellerId ?q0 = Inr q1" and h: "snd ?H = release q1"
    by (auto simp: handleSellerDeletion_def Let_def split: if_splits sum.splits prod.splits)
  from handleSellerDeletion_try_Inr [OF t w0] have c: "committed q1 = cascade_deleted sellerId d"
    by simp
  from handleSellerDeletion_try_shape [OF runner_sound_start, of d fails sellerId] t
  have "working q1 = committed q1 \<and> \<not> isTransactionActive q1
        \<and> list_all (\<lambda>v. v = d \<or> v = committed q1) (visible q1)"
    by (simp add: commit_shape_def)
  then show "committed (snd ?H) = cascade_deleted sellerId d"
    and "working (snd ?H) = cascade_deleted sellerId d"
    and "\<not> isTransactionActive (snd ?H)"
    and "list_all (\<lambda>v. v = d \<or> v = cascade_deleted sellerId d) (visible (snd ?H))"
    by (simp_all add: h c release_def)
qed

lemma delete_seller_route_alt:
  "delete_seller_route fails sellerId d
     = (case fst (handleSellerDeletion fails sellerId d) of
          Inr u \<Rightarrow> Resp 204 NoContent
        | Inl e \<Rightarrow> Resp 500 (ErrorBody (error_text e)),
        committed (snd (handleSellerDeletion fails sellerId d)))"
  by (simp add: delete_seller_route_def split: prod.splits sum.splits)

lemma demo_cascade:
  "cascade_deleted ''S1'' (demo_db\<lparr>auth_logs := []\<rparr>)
     = empty_db\<lparr>otp_attempts := [demo_attempt], menu := [\<lparr>row_id = 4, rest_id = ''S2''\<rparr>]\<rparr>"
  by (simp add: cascade_deleted_def Let_def demo_db_def empty_db_def first_row_def
      demo_seller_def demo_session_def)

lemma demo_try_blocked:
  "\<exists>q. handleSellerDeletion_try (\<lambda>k w. False) ''S1'' (startTransaction (createQueryRunner demo_db))
     = Inl (Error ''update or delete on table sellers violates foreign key constraint on table auth_logs'', q)
     \<and> working q = demo_db\<lparr>auth_sessions := [], menu := [\<lparr>row_id = 4, rest_id = ''S2''\<rparr>], orders := []\<rparr>"
  by (simp add: handleSellerDeletion_try_def Let_def and_then_def query_def relatedTables_def
      delete_by_rest_id_def delete_seller_row_def referenced_in_auth_logs_def
      startTransaction_def createQueryRunner_def
      demo_db_def empty_db_def demo_session_def demo_log_def demo_seller_def)

text \<open>
  C7. Deleting a seller should remove the seller with its sessions and its rows of the six
  related tables, and keep the audit log. On the schema of the repository it cannot do both:
  the audit log refers to the seller with no action on delete, so for a seller that a row of
  the audit log names (every seller that has signed up or logged in) the statement that
  deletes the seller row throws, whatever else fails or does not: the deletion throws, the
  route answers 500, and the datastore is as before, the seller still there.
\<close>

theorem handleSellerDeletion_audit_row_blocks:
  assumes "s \<in> set (sellers d)" and "seller_id s = sellerId"
    and "l \<in> set (auth_logs d)" and "log_seller_id l = Some sellerId"
  shows "\<exists>e. fst (handleSellerDeletion fails sellerId d) = Inl e
           \<and> committed (snd (handleSellerDeletion fails sellerId d)) = d
           \<and> delete_seller_route fails sellerId d = (Resp 500 (ErrorBody (error_text e)), d)
           \<and> s \<in> set (sellers (snd (delete_seller_route fails sellerId d)))"
proof -
  have "referenced_in_auth_logs sellerId d"
    using assms by (auto simp: referenced_in_auth_logs_def filter_empty_conv)
  then obtain e where f: "fst (handleSellerDeletion fails sellerId d) = Inl e"
    using handleSellerDeletion_blocked by blast
  note c = handleSellerDeletion_failure(1) [OF f]
  have r: "delete_seller_route fails sellerId d = (Resp 500 (ErrorBody (error_text e)), d)"
    using f c by (simp add: delete_seller_route_alt)
  show ?thesis
    using f c r assms(1) by (intro exI [of _ e]) simp
qed

text \<open>
  Seller \<open>S1\<close> of the concrete datastore has one audit row and no statement fails
  otherwise: the sessions, the menu rows and the orders are deleted inside the transaction,
  then the deletion throws. The same seller without the audit row is deleted.
\<close>

theorem handleSellerDeletion_audit_row_blocks_witness:
  "demo_seller \<in> set (sellers demo_db) \<and> seller_id demo_seller = ''S1'' \<and>
   demo_log \<in> set (auth_logs demo_db) \<and> log_seller_id demo_log = Some ''S1'' \<and>
   fst (handleSellerDeletion (\<lambda>k w. False) ''S1'' demo_db)
     = Inl (Error ''update or delete on table sellers violates foreign key constraint on table auth_logs'') \<and>
   delete_seller_route (\<lambda>k w. False) ''S1'' demo_db
     = (Resp 500 (ErrorBody ''update or delete on table sellers violates foreign key constraint on table auth_logs''),
        demo_db) \<and>
   delete_seller_route (\<lambda>k w. False) ''S1'' (demo_db\<lparr>auth_logs := []\<rparr>)
     = (Resp 204 NoContent,
        empty_db\<lparr>otp_attempts := [demo_attempt], menu := [\<lparr>row_id = 4, rest_id = ''S2''\<rparr>]\<rparr>)"
proof -
  let ?F = "\<lambda>(k::nat) (w::db). False"
  let ?m = "''update or delete on table sellers violates foreign key constraint on table auth_logs''"
  let ?d0 = "demo_db\<lparr>auth_logs := []\<rparr>"
  have s: "demo_seller \<in> set (sellers demo_db)" "seller_id demo_seller = ''S1''"
    "demo_log \<in> set (auth_logs demo_db)" "log_seller_id demo_log = Some ''S1''"
    by (simp_all add: demo_db_def empty_db_def demo_seller_def demo_log_def)
  from demo_try_blocked obtain q where
    t: "handleSellerDeletion_try ?F ''S1'' (startTransaction (createQueryRunner demo_db))
          = Inl (Error ?m, q)"
    by (elim exE conjE) (rule that)
  then have f: "fst (handleSellerDeletion ?F ''S1'' demo_db) = Inl (Error ?m)"
    by (simp add: handleSellerDeletion_def Let_def)
  from handleSellerDeletion_audit_row_blocks [OF s, of ?F] obtain e where
    f': "fst (handleSellerDeletion ?F ''S1'' demo_db) = Inl e"
    and r': "delete_seller_route ?F ''S1'' demo_db = (Resp 500 (ErrorBody (error_text e)), demo_db)"
    by (elim exE conjE) (rule that)
  from f f' have "e = Error ?m"
    by simp
  then have "error_text e = ?m"
    by (simp add: error_text_def)
  with r' have r: "delete_seller_route ?F ''S1'' demo_db = (Resp 500 (ErrorBody ?m), demo_db)"
    by (simp only:)
  have "\<not> referenced_in_auth_logs ''S1'' (working (startTransaction (createQueryRunner ?d0)))"
    by (simp add: referenced_in_auth_logs_def startTransaction_def createQueryRunner_def)
  from handleSellerDeletion_try_no_failure [OF this] obtain q' where
    "handleSellerDeletion_try ?F ''S1'' (startTransaction (createQueryRunner ?d0)) = Inr q'"
    by (elim exE)
  then have f0: "fst (handleSellerDeletion ?F ''S1'' ?d0) = Inr ()"
    by (simp add: handleSellerDeletion_def Let_def)
  note c0 = handleSellerDeletion_success(1) [OF f0]
  have r0: "delete_seller_route ?F ''S1'' ?d0 = (Resp 204 NoContent, cascade_deleted ''S1'' ?d0)"
    using f0 c0 by (simp add: delete_seller_route_alt)
  show ?thesis
    unfolding r r0 demo_cascade using s f by (simp only: simp_thms)
qed

text \<open>
  C8. Whichever call on the query runner fails (connect, begin, any statement, the commit),
  \<^verbatim>\<open>handleSellerDeletion\<close> throws and leaves the datastore exactly as it was before: the
  \<^verbatim>\<open>catch\<close> block has rolled the transaction back, so the runner holds no open transaction
  and its working state is the old datastore again, whatever the statements before the
  failure had deleted, and the route answers 500. From the first call on the runner to the
  last, no other connection has read anything but the datastore as it was before or, after
  a commit, the fully cascaded one; after a failure, nothing but the datastore as it was.
  Once the transaction has begun the runner is released, failure or not.
\<close>

theorem handleSellerDeletion_rollback:
  "(\<forall>e. fst (handleSellerDeletion fails sellerId d) = Inl e \<longrightarrow>
        committed (snd (handleSellerDeletion fails sellerId d)) = d
      \<and> working (snd (handleSellerDeletion fails sellerId d)) = d
      \<and> \<not> isTransactionActive (snd (handleSellerDeletion fails sellerId d))
      \<and> (\<forall>v \<in> set (visible (snd (handleSellerDeletion fails sellerId d))). v = d)
      \<and> delete_seller_route fails sellerId d = (Resp 500 (ErrorBody (error_text e)), d))
   \<and> (\<forall>e q. handleSellerDeletion_try fails sellerId (startTransaction (createQueryRunner d)) = Inl (e, q)
          \<longrightarrow> \<not> fails 0 d \<longrightarrow> \<not> fails 1 d \<longrightarrow>
          handleSellerDeletion fails sellerId d = (Inl e, release (rollbackTransaction q))
        \<and> committed q = d)
   \<and> (\<not> fails 0 d \<longrightarrow> \<not> fails 1 d \<longrightarrow> isReleased (snd (handleSellerDeletion fails sellerId d)))
   \<and> (\<forall>v \<in> set (visible (snd (handleSellerDeletion fails sellerId d))).
          v = d \<or> v = cascade_deleted sellerId d)
   \<and> (committed (snd (handleSellerDeletion fails sellerId d)) = d
        \<or> committed (snd (handleSellerDeletion fails sellerId d)) = cascade_deleted sellerId d)"
proof -
  let ?H = "handleSellerDeletion fails sellerId d"
  have 1: "\<forall>e. fst ?H = Inl e \<longrightarrow>
        committed (snd ?H) = d \<and> working (snd ?H) = d \<and> \<not> isTransactionActive (snd ?H)
      \<and> (\<forall>v \<in> set (visible (snd ?H)). v = d)
      \<and> delete_seller_route fails sellerId d = (Resp 500 (ErrorBody (error_text e)), d)"
  proof (intro allI impI)
    fix e
    assume f: "fst ?H = Inl e"
    note k = handleSellerDeletion_failure [OF f]
    have r: "delete_seller_route fails sellerId d = (Resp 500 (ErrorBody (error_text e)), d)"
      using f k(1) by (simp add: delete_seller_route_alt)
    from k(4) have v: "\<forall>v \<in> set (visible (snd ?H)). v = d"
      by (simp add: list_all_iff)
    from k(1) k(2) k(3) v r
    show "committed (snd ?H) = d \<and> working (snd ?H) = d \<and> \<not> isTransactionActive (snd ?H)
      \<and> (\<forall>v \<in> set (visible (snd ?H)). v = d)
      \<and> delete_seller_route fails sellerId d = (Resp 500 (ErrorBody (error_text e)), d)"
      by (intro conjI)
  qed
  have 2: "\<forall>e q. handleSellerDeletion_try fails sellerId (startTransaction (createQueryRunner d)) = Inl (e, q)
          \<longrightarrow> \<not> fails 0 d \<longrightarrow> \<not> fails 1 d \<longrightarrow>
          ?H = (Inl e, release (rollbackTransaction q)) \<and> committed q = d"
  proof (intro allI impI)
    fix e q
    assume t: "handleSellerDeletion_try fails sellerId (startTransaction (createQueryRunner d)) = Inl (e, q)"
      and n: "\<not> fails 0 d" "\<not> fails 1 d"
    from handleSellerDeletion_try_intact [OF runner_sound_start, of d fails sellerId] t
    have c: "committed q = d"
      by (simp add: failure_intact_def runner_sound_def)
    from t n have "?H = (Inl e, release (rollbackTransaction q))"
      by (simp add: handleSellerDeletion_def Let_def)
    with c show "?H = (Inl e, release (rollbackTransaction q)) \<and> committed q = d"
      by (intro conjI)
  qed
  have 3: "\<not> fails 0 d \<longrightarrow> \<not> fails 1 d \<longrightarrow> isReleased (snd ?H)"
    by (intro impI) (rule handleSellerDeletion_released)
  have 45: "(\<forall>v \<in> set (visible (snd ?H)). v = d \<or> v = cascade_deleted sellerId d)
           \<and> (committed (snd ?H) = d \<or> committed (snd ?H) = cascade_deleted sellerId d)"
  proof (cases "fst ?H")
    case (Inl e)
    from handleSellerDeletion_failure(1,4) [OF Inl] show ?thesis
      by (simp add: list_all_iff)
  next
    case (Inr u)
    from handleSellerDeletion_success(1,4) [OF Inr] show ?thesis
      by (simp add: list_all_iff)
  qed
  from 1 2 3 45 [THEN conjunct1] 45 [THEN conjunct2] show ?thesis
    by (intro conjI)
qed

lemma demo_try_commit_fails:
  "\<exists>q. handleSellerDeletion_try (\<lambda>k w. k = 13) ''S1''
          (startTransaction (createQueryRunner (demo_db\<lparr>auth_logs := []\<rparr>)))
        = Inl (Error ''commit failed'', q)
      \<and> working q = empty_db\<lparr>otp_attempts := [demo_attempt], menu := [\<lparr>row_id = 4, rest_id = ''S2''\<rparr>]\<rparr>
      \<and> isTransactionActive q"
  by (simp add: handleSellerDeletion_try_def Let_def and_then_def query_def relatedTables_def
      delete_by_rest_id_def delete_seller_row_def referenced_in_auth_logs_def
      delete_unused_address_def commitTransaction_def first_row_def
      startTransaction_def createQueryRunner_def
      demo_db_def empty_db_def demo_session_def demo_seller_def)

theorem handleSellerDeletion_rollback_witness:
  "(\<exists>q. handleSellerDeletion_try (\<lambda>k w. k = 13) ''S1''
          (startTransaction (createQueryRunner (demo_db\<lparr>auth_logs := []\<rparr>)))
        = Inl (Error ''commit failed'', q)
      \<and> working q = empty_db\<lparr>otp_attempts := [demo_attempt], menu := [\<lparr>row_id = 4, rest_id = ''S2''\<rparr>]\<rparr>
      \<and> isTransactionActive q
      \<and> handleSellerDeletion (\<lambda>k w. k = 13) ''S1'' (demo_db\<lparr>auth_logs := []\<rparr>)
          = (Inl (Error ''commit failed''), release (rollbackTransaction q))) \<and>
   fst (handleSellerDeletion (\<lambda>k w. k = 13) ''S1'' (demo_db\<lparr>auth_logs := []\<rparr>))
     = Inl (Error ''commit failed'') \<and>
   committed (snd (handleSellerDeletion (\<lambda>k w. k = 13) ''S1'' (demo_db\<lparr>auth_logs := []\<rparr>)))
     = demo_db\<lparr>auth_logs := []\<rparr> \<and>
   working (snd (handleSellerDeletion (\<lambda>k w. k = 13) ''S1'' (demo_db\<lparr>auth_logs := []\<rparr>)))
     = demo_db\<lparr>auth_logs := []\<rparr> \<and>
   \<not> isTransactionActive (snd (handleSellerDeletion (\<lambda>k w. k = 13) ''S1'' (demo_db\<lparr>auth_logs := []\<rparr>))) \<and>
   isReleased (snd (handleSellerDeletion (\<lambda>k w. k = 13) ''S1'' (demo_db\<lparr>auth_logs := []\<rparr>))) \<and>
   set (visible (snd (handleSellerDeletion (\<lambda>k w. k = 13) ''S1'' (demo_db\<lparr>auth_logs := []\<rparr>))))
     \<subseteq> {demo_db\<lparr>auth_logs := []\<rparr>} \<and>
   delete_seller_route (\<lambda>k w. k = 13) ''S1'' (demo_db\<lparr>auth_logs := []\<rparr>)
     = (Resp 500 (ErrorBody ''commit failed''), demo_db\<lparr>auth_logs := []\<rparr>)"
proof -
  let ?F = "\<lambda>(k::nat) (w::db). k = 13"
  let ?d = "demo_db\<lparr>auth_logs := []\<rparr>"
  let ?H = "handleSellerDeletion ?F ''S1'' ?d"
  from demo_try_commit_fails obtain q where
    t: "handleSellerDeletion_try ?F ''S1'' (startTransaction (createQueryRunner ?d))
          = Inl (Error ''commit failed'', q)"
    and w: "working q = empty_db\<lparr>otp_attempts := [demo_attempt], menu := [\<lparr>row_id = 4, rest_id = ''S2''\<rparr>]\<rparr>"
    and a: "isTransactionActive q"
    by (elim exE conjE) (rule that)
  have n0: "\<not> ?F 0 ?d" and n1: "\<not> ?F 1 ?d"
    by simp_all
  note rb = handleSellerDeletion_rollback [of ?F "''S1''" ?d]
  from rb [THEN conjunct2, THEN conjunct1, rule_format, OF t n0 n1]
  have h: "?H = (Inl (Error ''commit failed''), release (rollbackTransaction q))"
    by (rule conjunct1)
  then have f: "fst ?H = Inl (Error ''commit failed'')"
    by (simp only: fst_conv)
  note k = rb [THEN conjunct1, rule_format, OF f]
  note r = rb [THEN conjunct2, THEN conjunct2, THEN conjunct1, rule_format, OF n0 n1]
  have e: "error_text (Error ''commit failed'') = ''commit failed''"
    by (simp add: error_text_def)
  note k1 = k [THEN conjunct1]
  note k2 = k [THEN conjunct2, THEN conjunct1]
  note k3 = k [THEN conjunct2, THEN conjunct2, THEN conjunct1]
  note k4 = k [THEN conjunct2, THEN conjunct2, THEN conjunct2, THEN conjunct1]
  note k5 = k [THEN conjunct2, THEN conjunct2, THEN conjunct2, THEN conjunct2, unfolded e]
  have k4': "set (visible (snd ?H)) \<subseteq> {?d}"
  proof
    fix v
    assume "v \<in> set (visible (snd ?H))"
    with k4 have "v = ?d" ..
    then show "v \<in> {?d}"
      by (simp only: singleton_iff)
  qed
  have first: "\<exists>q. handleSellerDeletion_try ?F ''S1'' (startTransaction (createQueryRunner ?d))
        = Inl (Error ''commit failed'', q)
      \<and> working q = empty_db\<lparr>otp_attempts := [demo_attempt], menu := [\<lparr>row_id = 4, rest_id = ''S2''\<rparr>]\<rparr>
      \<and> isTransactionActive q
      \<and> ?H = (Inl (Error ''commit failed''), release (rollbackTransaction q))"
    using t w a h by (intro exI [of _ q] conjI)
  show ?thesis
    using first f k1 k2 k3 r k4' k5 by (intro conjI)
qed

end
